theory Spec2Isabelle
  imports Main
begin

section \<open>The connection handler of the USD run time (UsdConnectionHandler.cpp)\<close>

text \<open>
  The handler translates generic UFE attribute references into USD attributes and edits
  the connections of a USD stage through the UsdShade connectable API. The file under
  verification holds three functions: the coercion \<open>usdAttrFromUfeAttr\<close>, the query
  \<open>isConnected\<close> and the two editing operations \<open>createConnection\<close> and
  \<open>deleteConnection\<close>. Everything they call in the USD library, in the shader registry
  and in the rest of the plug-in is a parameter of the embedding (the record
  \<open>usd_externals\<close>), so each theorem about the handler holds for every behaviour of
  these collaborators. A reference model of the library on a small stage type follows
  the handler; it gives the concrete inputs, and the facts that depend on what the
  library does.
\<close>

subsection \<open>Data\<close>

type_synonym token = string

text \<open>An attribute path: the path of the owning prim and the name of the property.\<close>

datatype sdf_path = SdfPath (primPath: string) (propName: token)

text \<open>
  A \<open>PXR_NS::UsdAttribute\<close> is a handle into the stage; the handle is identified by its
  path, and the attribute it names may or may not exist on the stage.
\<close>

type_synonym pxr_attribute = sdf_path

definition GetPath :: "pxr_attribute \<Rightarrow> sdf_path" where
  "GetPath a = a"

datatype UsdShadeAttributeType = Invalid | Input | Output

text \<open>\<open>UsdShadeInput\<close> and \<open>UsdShadeOutput\<close>: a socket wraps the attribute it stands for.\<close>

datatype shade_socket = ShadeInput pxr_attribute | ShadeOutput pxr_attribute

fun GetAttr :: "shade_socket \<Rightarrow> pxr_attribute" where
  "GetAttr (ShadeInput a) = a"
| "GetAttr (ShadeOutput a) = a"

text \<open>A shader definition of the registry, as far as the handler reads it.\<close>

record sdr_shader_node =
  sourceType :: token

text \<open>
  \<open>Ufe::SceneItem\<close>, as far as the handler reads it: the run-time identifier and the
  path, already as the string \<open>Ufe::PathString::string\<close> gives.
\<close>

record ufe_scene_item =
  runTimeId :: nat
  path :: string

text \<open>
  Modelled from the spec: the plug-in's \<open>UsdAttribute\<close> class (UsdAttribute.h), "the
  scene-description-specific view of an AttributeRef". The handler reads the prim it
  belongs to and the USD attribute it wraps.
\<close>

record maya_usd_attribute =
  usdPrim :: string
  usdAttribute :: pxr_attribute

text \<open>
  \<open>dynamicUsdAttribute\<close> is the result of \<open>dynamic_cast<UsdAttribute*>\<close> on the object:
  \<open>None\<close> when its dynamic type is not the plug-in's attribute class. A
  \<open>Ufe::Attribute::Ptr\<close> is a \<open>ufe_attribute option\<close>, \<open>None\<close> the null pointer.
\<close>

record ufe_attribute =
  sceneItem :: ufe_scene_item
  name :: string
  dynamicUsdAttribute :: "maya_usd_attribute option"

text \<open>
  The state the handler runs in: the stage (of any type \<open>'d\<close>) and the messages sent to
  the diagnostic channel by \<open>TF_RUNTIME_ERROR\<close>, oldest first.
\<close>

record 'd session =
  stage :: 'd
  diagnostics :: "string list"

definition TF_RUNTIME_ERROR :: "string \<Rightarrow> 'd session \<Rightarrow> 'd session" where
  "TF_RUNTIME_ERROR msg s = s\<lparr>diagnostics := diagnostics s @ [msg]\<rparr>"

text \<open>
  The collaborators. Calls that edit the stage take it and return it; the \<open>const\<close>
  queries only read it. \<open>CreateInput\<close> and \<open>CreateOutput\<close> take the prim of the
  connectable API object, the base name and the type name; the three terminal
  operations take the material's prim and the render context.
\<close>

record 'd usd_externals =
  getUsdRunTimeId :: nat
  GetConnections :: "'d \<Rightarrow> pxr_attribute \<Rightarrow> sdf_path list"
  GetTypeName :: "'d \<Rightarrow> pxr_attribute \<Rightarrow> token"
  GetBaseNameAndType :: "token \<Rightarrow> token \<times> UsdShadeAttributeType"
  CreateInput :: "string \<Rightarrow> token \<Rightarrow> token \<Rightarrow> 'd \<Rightarrow> shade_socket \<times> 'd"
  CreateOutput :: "string \<Rightarrow> token \<Rightarrow> token \<Rightarrow> 'd \<Rightarrow> shade_socket \<times> 'd"
  ConnectToSource :: "shade_socket \<Rightarrow> shade_socket \<Rightarrow> 'd \<Rightarrow> bool \<times> 'd"
  DisconnectSource :: "pxr_attribute \<Rightarrow> pxr_attribute \<Rightarrow> 'd \<Rightarrow> bool \<times> 'd"
  IsMaterial :: "'d \<Rightarrow> string \<Rightarrow> bool"
  GetShaderId :: "'d \<Rightarrow> string \<Rightarrow> token"
  GetShaderNodeByIdentifier :: "token \<Rightarrow> sdr_shader_node option"
  CreateSurfaceOutput :: "string \<Rightarrow> token \<Rightarrow> 'd \<Rightarrow> shade_socket \<times> 'd"
  CreateVolumeOutput :: "string \<Rightarrow> token \<Rightarrow> 'd \<Rightarrow> shade_socket \<times> 'd"
  CreateDisplacementOutput :: "string \<Rightarrow> token \<Rightarrow> 'd \<Rightarrow> shade_socket \<times> 'd"

text \<open>The tokens of \<open>UsdShadeTokens\<close> that the handler names.\<close>

definition surface :: token where
  "surface = ''surface''"

definition volume :: token where
  "volume = ''volume''"

definition displacement :: token where
  "displacement = ''displacement''"

definition universalRenderContext :: token where
  "universalRenderContext = []"

definition apostrophe :: string where
  "apostrophe = [CHR 0x27]"

subsection \<open>The handler\<close>

text \<open>
  \<open>usdAttrFromUfeAttr\<close>: null pointer, then foreign run time, each with its message;
  otherwise the dynamic cast, which says nothing when it fails.
\<close>

definition usdAttrFromUfeAttr ::
  "'d usd_externals \<Rightarrow> ufe_attribute option \<Rightarrow> 'd session \<Rightarrow> maya_usd_attribute option \<times> 'd session"
where
  "usdAttrFromUfeAttr X attr s =
     (case attr of
        None \<Rightarrow> (None, TF_RUNTIME_ERROR ''Invalid attribute.'' s)
      | Some a \<Rightarrow>
          if runTimeId (sceneItem a) \<noteq> getUsdRunTimeId X then
            (None,
             TF_RUNTIME_ERROR
               (''Invalid runtime identifier for the attribute '' @ apostrophe @ name a
                @ apostrophe @ '' in the node '' @ apostrophe @ path (sceneItem a)
                @ apostrophe @ ''.'') s)
          else (dynamicUsdAttribute a, s))"

text \<open>\<open>isConnected\<close>: the loop over the destination's connection paths.\<close>

fun isConnected_loop :: "sdf_path \<Rightarrow> sdf_path list \<Rightarrow> bool" where
  "isConnected_loop srcPath [] = False"
| "isConnected_loop srcPath (p # connectedAttrs) =
     (if p = srcPath then True else isConnected_loop srcPath connectedAttrs)"

definition isConnected :: "'d usd_externals \<Rightarrow> 'd \<Rightarrow> pxr_attribute \<Rightarrow> pxr_attribute \<Rightarrow> bool" where
  "isConnected X d srcUsdAttr dstUsdAttr =
     isConnected_loop (GetPath srcUsdAttr) (GetConnections X d dstUsdAttr)"

text \<open>
  Modelled from the spec: \<open>UsdAttribute::usdAttributeType\<close> (UsdAttribute.h), "the
  attribute's underlying value type", read from the stage when it is called.
\<close>

definition usdAttributeType :: "'d usd_externals \<Rightarrow> 'd \<Rightarrow> maya_usd_attribute \<Rightarrow> token" where
  "usdAttributeType X d a = GetTypeName X d (usdAttribute a)"

text \<open>
  \<open>return UsdShadeConnectableAPI::ConnectToSource(dst, src)\<close>: the result of the
  library call is the result of the handler, the stage is the one the call leaves.
\<close>

definition returnConnectToSource ::
  "'d usd_externals \<Rightarrow> shade_socket \<Rightarrow> shade_socket \<Rightarrow> 'd \<Rightarrow> 'd session \<Rightarrow> bool \<times> 'd session"
where
  "returnConnectToSource X dst src d s =
     (case ConnectToSource X dst src d of (ok, d') \<Rightarrow> (ok, s\<lparr>stage := d'\<rparr>))"

text \<open>
  The body of \<open>createConnection\<close> after its guard (lines 105 to 171): decode the two
  names, create the source socket, then the destination socket, connect. Any type
  that is not \<open>Input\<close> takes the \<open>else\<close> branch, as in the source.
\<close>

definition connectSockets ::
  "'d usd_externals \<Rightarrow> ufe_attribute \<Rightarrow> maya_usd_attribute \<Rightarrow> ufe_attribute \<Rightarrow> maya_usd_attribute
     \<Rightarrow> 'd session \<Rightarrow> bool \<times> 'd session"
where
  "connectSockets X srcAttr srcUsdAttr dstAttr dstUsdAttr s =
     (case GetBaseNameAndType X (name srcAttr) of (srcBaseName, srcAttrType) \<Rightarrow>
      case GetBaseNameAndType X (name dstAttr) of (dstBaseName, dstAttrType) \<Rightarrow>
      if srcAttrType = Input then
        (case CreateInput X (usdPrim srcUsdAttr) srcBaseName
                (usdAttributeType X (stage s) srcUsdAttr) (stage s) of (srcInput, d1) \<Rightarrow>
         if dstAttrType = Input then
           (case CreateInput X (usdPrim dstUsdAttr) dstBaseName
                   (usdAttributeType X d1 dstUsdAttr) d1 of (dstInput, d2) \<Rightarrow>
            returnConnectToSource X dstInput srcInput d2 s)
         else
           (case CreateOutput X (usdPrim dstUsdAttr) dstBaseName
                   (usdAttributeType X d1 dstUsdAttr) d1 of (dstOutput, d2) \<Rightarrow>
            returnConnectToSource X dstOutput srcInput d2 s))
      else
        (case CreateOutput X (usdPrim srcUsdAttr) srcBaseName
                (usdAttributeType X (stage s) srcUsdAttr) (stage s) of (srcOutput, d1) \<Rightarrow>
         if dstAttrType = Input then
           (case CreateInput X (usdPrim dstUsdAttr) dstBaseName
                   (usdAttributeType X d1 dstUsdAttr) d1 of (dstInput, d2) \<Rightarrow>
            returnConnectToSource X dstInput srcOutput d2 s)
         else if IsMaterial X d1 (usdPrim dstUsdAttr)
                 \<and> (dstBaseName = surface \<or> dstBaseName = volume \<or> dstBaseName = displacement)
         then
           (let srcInfoId = GetShaderId X d1 (usdPrim srcUsdAttr) in
            case GetShaderNodeByIdentifier X srcInfoId of
              None \<Rightarrow>
                (False,
                 TF_RUNTIME_ERROR
                   (''Could not find node definition '' @ apostrophe @ srcInfoId @ apostrophe
                    @ '' for node '' @ apostrophe @ path (sceneItem srcAttr) @ apostrophe
                    @ ''.'') (s\<lparr>stage := d1\<rparr>))
            | Some srcShaderNodeDef \<Rightarrow>
                (let renderContext =
                       (if sourceType srcShaderNodeDef = ''glslfx'' then universalRenderContext
                        else sourceType srcShaderNodeDef)
                 in case (if dstBaseName = surface then
                            CreateSurfaceOutput X (usdPrim dstUsdAttr) renderContext d1
                          else if dstBaseName = volume then
                            CreateVolumeOutput X (usdPrim dstUsdAttr) renderContext d1
                          else CreateDisplacementOutput X (usdPrim dstUsdAttr) renderContext d1)
                    of (dstOutput, d2) \<Rightarrow> returnConnectToSource X dstOutput srcOutput d2 s))
         else
           (case CreateOutput X (usdPrim dstUsdAttr) dstBaseName
                   (usdAttributeType X d1 dstUsdAttr) d1 of (dstOutput, d2) \<Rightarrow>
            returnConnectToSource X dstOutput srcOutput d2 s)))"

text \<open>
  \<open>createConnection\<close>: both coercions run first (each may send its message), then the
  guard. Past the guard both pointers are non-null (lemma \<open>usdAttrFromUfeAttr_Some\<close>),
  so the last branch of the inner \<open>case\<close> is never taken.
\<close>

definition createConnection ::
  "'d usd_externals \<Rightarrow> ufe_attribute option \<Rightarrow> ufe_attribute option \<Rightarrow> 'd session
     \<Rightarrow> bool \<times> 'd session"
where
  "createConnection X srcAttr dstAttr s =
     (case usdAttrFromUfeAttr X srcAttr s of (srcUsdAttr, s1) \<Rightarrow>
      case usdAttrFromUfeAttr X dstAttr s1 of (dstUsdAttr, s2) \<Rightarrow>
      (case srcUsdAttr of
         None \<Rightarrow> (False, s2)
       | Some su \<Rightarrow>
          (case dstUsdAttr of
             None \<Rightarrow> (False, s2)
           | Some du \<Rightarrow>
               if isConnected X (stage s2) (usdAttribute su) (usdAttribute du) then (False, s2)
               else (case (srcAttr, dstAttr) of
                       (Some a, Some b) \<Rightarrow> connectSockets X a su b du s2
                     | _ \<Rightarrow> (False, s2)))))"

definition deleteConnection ::
  "'d usd_externals \<Rightarrow> ufe_attribute option \<Rightarrow> ufe_attribute option \<Rightarrow> 'd session
     \<Rightarrow> bool \<times> 'd session"
where
  "deleteConnection X srcAttr dstAttr s =
     (case usdAttrFromUfeAttr X srcAttr s of (srcUsdAttr, s1) \<Rightarrow>
      case usdAttrFromUfeAttr X dstAttr s1 of (dstUsdAttr, s2) \<Rightarrow>
      (case srcUsdAttr of
         None \<Rightarrow> (False, s2)
       | Some su \<Rightarrow>
          (case dstUsdAttr of
             None \<Rightarrow> (False, s2)
           | Some du \<Rightarrow>
               if \<not> isConnected X (stage s2) (usdAttribute su) (usdAttribute du) then (False, s2)
               else (case DisconnectSource X (usdAttribute du) (usdAttribute su) (stage s2) of
                       (ok, d') \<Rightarrow> (ok, s2\<lparr>stage := d'\<rparr>)))))"

section \<open>A reference model of the library\<close>

text \<open>
  The USD library, the shader registry and the plug-in's attribute class are not part of
  the file under verification. The definitions of this section give them one concrete
  behaviour, on a stage that records which prims and attributes exist and which
  connection paths each attribute holds. The handler above does not depend on them.
\<close>

record attr_spec =
  typeName :: token
  connectionPaths :: "sdf_path list"

record prim_spec =
  isMaterialPrim :: bool
  infoId :: token

record usd_stage =
  prims :: "string \<rightharpoonup> prim_spec"
  attrs :: "sdf_path \<rightharpoonup> attr_spec"

text \<open>
  Modelled from the spec: the library's query "current upstream connection paths of a
  destination attribute" (\<open>UsdAttribute::GetConnections\<close>); an attribute that does not
  exist has none.
\<close>

definition ref_GetConnections :: "usd_stage \<Rightarrow> pxr_attribute \<Rightarrow> sdf_path list" where
  "ref_GetConnections d a = (case attrs d a of None \<Rightarrow> [] | Some sp \<Rightarrow> connectionPaths sp)"

text \<open>
  Modelled from the spec: the attribute's underlying value type
  (\<open>UsdAttribute::GetTypeName\<close>), the empty token for an attribute that does not exist.
\<close>

definition ref_GetTypeName :: "usd_stage \<Rightarrow> pxr_attribute \<Rightarrow> token" where
  "ref_GetTypeName d a = (case attrs d a of None \<Rightarrow> [] | Some sp \<Rightarrow> typeName sp)"

text \<open>
  Modelled from the spec: \<open>UsdShadeUtils::GetBaseNameAndType\<close>, the direction of an
  attribute "derived from an attribute's qualified name (a namespace prefix convention,
  e.g. inputs: / outputs:)"; a name in neither namespace is returned whole with the
  type \<open>Invalid\<close>.
\<close>

definition ref_GetBaseNameAndType :: "token \<Rightarrow> token \<times> UsdShadeAttributeType" where
  "ref_GetBaseNameAndType fullName =
     (if take 7 fullName = ''inputs:'' then (drop 7 fullName, Input)
      else if take 8 fullName = ''outputs:'' then (drop 8 fullName, Output)
      else (fullName, Invalid))"

text \<open>
  Modelled from the spec: "create/ensure Input or Output socket (by base name and value
  type) on a node" (\<open>UsdShadeConnectableAPI::CreateInput\<close>, \<open>CreateOutput\<close>). The
  socket is the attribute of the prim named by the namespace prefix and the base name;
  it is created, without connections, when the prim exists and the attribute does not.
\<close>

definition ref_createAttribute :: "string \<Rightarrow> token \<Rightarrow> token \<Rightarrow> usd_stage \<Rightarrow> usd_stage" where
  "ref_createAttribute prim attrName ty d =
     (case prims d prim of
        None \<Rightarrow> d
      | Some _ \<Rightarrow>
         (case attrs d (SdfPath prim attrName) of
            Some _ \<Rightarrow> d
          | None \<Rightarrow>
              d\<lparr>attrs := (attrs d)(SdfPath prim attrName \<mapsto>
                     \<lparr>typeName = ty, connectionPaths = []\<rparr>)\<rparr>))"

definition ref_CreateInput :: "string \<Rightarrow> token \<Rightarrow> token \<Rightarrow> usd_stage \<Rightarrow> shade_socket \<times> usd_stage" where
  "ref_CreateInput prim baseName ty d =
     (ShadeInput (SdfPath prim (''inputs:'' @ baseName)),
      ref_createAttribute prim (''inputs:'' @ baseName) ty d)"

definition ref_CreateOutput :: "string \<Rightarrow> token \<Rightarrow> token \<Rightarrow> usd_stage \<Rightarrow> shade_socket \<times> usd_stage" where
  "ref_CreateOutput prim baseName ty d =
     (ShadeOutput (SdfPath prim (''outputs:'' @ baseName)),
      ref_createAttribute prim (''outputs:'' @ baseName) ty d)"

text \<open>
  Modelled from the spec: "create surface/volume/displacement output, each parameterized
  by a render-context qualifier string" (\<open>UsdShadeMaterial::CreateSurfaceOutput\<close> and
  its two siblings). The output is the token-typed output named by the render context
  joined to the terminal name; the universal (empty) context leaves the terminal name
  unqualified.
\<close>

definition JoinIdentifier :: "token \<Rightarrow> token \<Rightarrow> token" where
  "JoinIdentifier lhs rhs =
     (if lhs = [] then rhs else if rhs = [] then lhs else lhs @ '':'' @ rhs)"

definition ref_CreateTerminalOutput ::
  "token \<Rightarrow> string \<Rightarrow> token \<Rightarrow> usd_stage \<Rightarrow> shade_socket \<times> usd_stage"
where
  "ref_CreateTerminalOutput terminal prim renderContext d =
     ref_CreateOutput prim (JoinIdentifier renderContext terminal) ''token'' d"

text \<open>
  Modelled from the spec: "connect a destination socket to a source socket as upstream"
  (\<open>UsdShadeConnectableAPI::ConnectToSource\<close>). The call fails on a socket whose
  attribute does not exist; otherwise the source becomes the one upstream of the
  destination.
\<close>

definition ref_ConnectToSource :: "shade_socket \<Rightarrow> shade_socket \<Rightarrow> usd_stage \<Rightarrow> bool \<times> usd_stage" where
  "ref_ConnectToSource dst src d =
     (case attrs d (GetAttr dst) of
        None \<Rightarrow> (False, d)
      | Some sp \<Rightarrow>
         (case attrs d (GetAttr src) of
            None \<Rightarrow> (False, d)
          | Some _ \<Rightarrow>
              (True,
               d\<lparr>attrs := (attrs d)(GetAttr dst \<mapsto> sp\<lparr>connectionPaths := [GetAttr src]\<rparr>)\<rparr>)))"

text \<open>
  Modelled from the spec: "disconnect" (\<open>UsdShadeConnectableAPI::DisconnectSource\<close> on
  two attributes). The call fails when the destination does not exist; it removes the
  source's path from the destination's connections, and all of them when the source is
  not a valid attribute.
\<close>

definition ref_DisconnectSource :: "pxr_attribute \<Rightarrow> pxr_attribute \<Rightarrow> usd_stage \<Rightarrow> bool \<times> usd_stage" where
  "ref_DisconnectSource dstAttr srcAttr d =
     (case attrs d dstAttr of
        None \<Rightarrow> (False, d)
      | Some sp \<Rightarrow>
          (True,
           d\<lparr>attrs := (attrs d)(dstAttr \<mapsto>
                  sp\<lparr>connectionPaths :=
                       (case attrs d srcAttr of
                          None \<Rightarrow> []
                        | Some _ \<Rightarrow> removeAll srcAttr (connectionPaths sp))\<rparr>)\<rparr>))"

text \<open>
  Modelled from the spec: "a node recognized as a material" (a valid
  \<open>UsdShadeMaterial\<close>) and the shader identifier "stored on a node" (the value of
  \<open>UsdShadeShader::GetIdAttr\<close>, the empty token when there is none).
\<close>

definition ref_IsMaterial :: "usd_stage \<Rightarrow> string \<Rightarrow> bool" where
  "ref_IsMaterial d prim = (case prims d prim of None \<Rightarrow> False | Some p \<Rightarrow> isMaterialPrim p)"

definition ref_GetShaderId :: "usd_stage \<Rightarrow> string \<Rightarrow> token" where
  "ref_GetShaderId d prim = (case prims d prim of None \<Rightarrow> [] | Some p \<Rightarrow> infoId p)"

text \<open>
  The reference library for a run-time identifier and a registry ("lookup by a string
  identifier stored on a node, returning a shader definition exposing a declared
  source-type string").
\<close>

definition referenceLibrary :: "nat \<Rightarrow> (token \<rightharpoonup> sdr_shader_node) \<Rightarrow> usd_stage usd_externals" where
  "referenceLibrary rtid registry =
     \<lparr>getUsdRunTimeId = rtid,
      GetConnections = ref_GetConnections,
      GetTypeName = ref_GetTypeName,
      GetBaseNameAndType = ref_GetBaseNameAndType,
      CreateInput = ref_CreateInput,
      CreateOutput = ref_CreateOutput,
      ConnectToSource = ref_ConnectToSource,
      DisconnectSource = ref_DisconnectSource,
      IsMaterial = ref_IsMaterial,
      GetShaderId = ref_GetShaderId,
      GetShaderNodeByIdentifier = registry,
      CreateSurfaceOutput = ref_CreateTerminalOutput surface,
      CreateVolumeOutput = ref_CreateTerminalOutput volume,
      CreateDisplacementOutput = ref_CreateTerminalOutput displacement\<rparr>"

text \<open>
  Modelled from the spec: the plug-in's \<open>UsdAttribute\<close> (UsdAttribute.h is not in the
  file under verification), "the scene-description-specific view of an AttributeRef".
  The object built for the attribute \<open>attrName\<close> of the prim \<open>prim\<close> reports that name,
  that prim and the USD attribute at that path.
\<close>

definition typedView :: "string \<Rightarrow> token \<Rightarrow> maya_usd_attribute" where
  "typedView prim attrName = \<lparr>usdPrim = prim, usdAttribute = SdfPath prim attrName\<rparr>"

definition usdUfeAttribute :: "nat \<Rightarrow> string \<Rightarrow> token \<Rightarrow> ufe_attribute" where
  "usdUfeAttribute rtid prim attrName =
     \<lparr>sceneItem = \<lparr>runTimeId = rtid, path = prim\<rparr>,
      name = attrName,
      dynamicUsdAttribute = Some (typedView prim attrName)\<rparr>"

text \<open>
  An attribute object of another class: the same reference, whose dynamic type is not
  the plug-in's \<open>UsdAttribute\<close>.
\<close>

definition otherUfeAttribute :: "nat \<Rightarrow> string \<Rightarrow> token \<Rightarrow> ufe_attribute" where
  "otherUfeAttribute rtid prim attrName =
     \<lparr>sceneItem = \<lparr>runTimeId = rtid, path = prim\<rparr>,
      name = attrName,
      dynamicUsdAttribute = None\<rparr>"

text \<open>
  The typed view agrees with the reference: the attribute it wraps is the one of its
  prim that carries the reference's name.
\<close>

definition namesOwnAttribute :: "ufe_attribute \<Rightarrow> maya_usd_attribute \<Rightarrow> bool" where
  "namesOwnAttribute a u = (usdAttribute u = SdfPath (usdPrim u) (name a))"

text \<open>The name of the reference lies in the \<open>inputs:\<close> or the \<open>outputs:\<close> namespace.\<close>

definition namespaced :: "ufe_attribute \<Rightarrow> bool" where
  "namespaced a = (snd (ref_GetBaseNameAndType (name a)) \<noteq> Invalid)"

text \<open>
  The call \<open>createConnection a b\<close> on the stage \<open>d\<close> reaches the material-terminal
  branch and finds a shader definition whose render context is not the universal one:
  neither decoded type is \<open>Input\<close>, the destination prim is a material, the
  destination's base name is a terminal name, and the declared source type is neither
  \<open>glslfx\<close> nor empty.
\<close>

definition qualifiedTerminal ::
  "(token \<rightharpoonup> sdr_shader_node) \<Rightarrow> usd_stage \<Rightarrow> ufe_attribute \<Rightarrow> maya_usd_attribute
     \<Rightarrow> ufe_attribute \<Rightarrow> maya_usd_attribute \<Rightarrow> bool"
where
  "qualifiedTerminal registry d a su b du =
     (snd (ref_GetBaseNameAndType (name a)) \<noteq> Input
      \<and> snd (ref_GetBaseNameAndType (name b)) \<noteq> Input
      \<and> fst (ref_GetBaseNameAndType (name b)) \<in> {surface, volume, displacement}
      \<and> ref_IsMaterial d (usdPrim du)
      \<and> (case registry (ref_GetShaderId d (usdPrim su)) of
            None \<Rightarrow> False
          | Some nd \<Rightarrow> sourceType nd \<noteq> ''glslfx'' \<and> sourceType nd \<noteq> universalRenderContext))"

subsection \<open>A small shading network\<close>

text \<open>
  A material \<open>/mtl\<close> with its surface output, and four shaders below it: one whose
  definition has the source type \<open>mdl\<close>, a preview surface (source type \<open>glslfx\<close>),
  one whose identifier is not registered, and a texture with a float result that feeds
  the roughness input of the preview surface. The output \<open>outputs:out\<close> of the
  unregistered shader is not authored on the stage.
\<close>

definition usdRunTime :: nat where
  "usdRunTime = 2"

definition mayaRunTime :: nat where
  "mayaRunTime = 1"

definition exampleRegistry :: "token \<rightharpoonup> sdr_shader_node" where
  "exampleRegistry =
     [''mdl_surface'' \<mapsto> \<lparr>sourceType = ''mdl''\<rparr>,
      ''UsdPreviewSurface'' \<mapsto> \<lparr>sourceType = ''glslfx''\<rparr>]"

definition exampleLibrary :: "usd_stage usd_externals" where
  "exampleLibrary = referenceLibrary usdRunTime exampleRegistry"

definition exampleStage :: usd_stage where
  "exampleStage =
     \<lparr>prims =
        [''/mtl'' \<mapsto> \<lparr>isMaterialPrim = True, infoId = []\<rparr>,
         ''/mtl/mdl'' \<mapsto> \<lparr>isMaterialPrim = False, infoId = ''mdl_surface''\<rparr>,
         ''/mtl/preview'' \<mapsto> \<lparr>isMaterialPrim = False, infoId = ''UsdPreviewSurface''\<rparr>,
         ''/mtl/unknown'' \<mapsto> \<lparr>isMaterialPrim = False, infoId = ''not_registered''\<rparr>,
         ''/mtl/tex'' \<mapsto> \<lparr>isMaterialPrim = False, infoId = ''UsdUVTexture''\<rparr>],
      attrs =
        [SdfPath ''/mtl'' ''outputs:surface'' \<mapsto> \<lparr>typeName = ''token'', connectionPaths = []\<rparr>,
         SdfPath ''/mtl/mdl'' ''outputs:surface'' \<mapsto> \<lparr>typeName = ''token'', connectionPaths = []\<rparr>,
         SdfPath ''/mtl/preview'' ''outputs:surface'' \<mapsto>
           \<lparr>typeName = ''token'', connectionPaths = []\<rparr>,
         SdfPath ''/mtl/preview'' ''inputs:roughness'' \<mapsto>
           \<lparr>typeName = ''float'', connectionPaths = [SdfPath ''/mtl/tex'' ''outputs:r'']\<rparr>,
         SdfPath ''/mtl/preview'' ''inputs:metallic'' \<mapsto>
           \<lparr>typeName = ''float'', connectionPaths = []\<rparr>,
         SdfPath ''/mtl/tex'' ''outputs:r'' \<mapsto> \<lparr>typeName = ''float'', connectionPaths = []\<rparr>]\<rparr>"

definition exampleSession :: "usd_stage session" where
  "exampleSession = \<lparr>stage = exampleStage, diagnostics = []\<rparr>"

definition textureR :: ufe_attribute where
  "textureR = usdUfeAttribute usdRunTime ''/mtl/tex'' ''outputs:r''"

definition previewRoughness :: ufe_attribute where
  "previewRoughness = usdUfeAttribute usdRunTime ''/mtl/preview'' ''inputs:roughness''"

definition previewMetallic :: ufe_attribute where
  "previewMetallic = usdUfeAttribute usdRunTime ''/mtl/preview'' ''inputs:metallic''"

definition previewSurface :: ufe_attribute where
  "previewSurface = usdUfeAttribute usdRunTime ''/mtl/preview'' ''outputs:surface''"

definition mdlSurface :: ufe_attribute where
  "mdlSurface = usdUfeAttribute usdRunTime ''/mtl/mdl'' ''outputs:surface''"

definition unknownOut :: ufe_attribute where
  "unknownOut = usdUfeAttribute usdRunTime ''/mtl/unknown'' ''outputs:out''"

definition materialSurface :: ufe_attribute where
  "materialSurface = usdUfeAttribute usdRunTime ''/mtl'' ''outputs:surface''"

text \<open>An attribute outside the two namespaces: the identifier attribute of the texture.\<close>

definition textureInfoId :: ufe_attribute where
  "textureInfoId = usdUfeAttribute usdRunTime ''/mtl/tex'' ''info:id''"

text \<open>
  The displacement output of the material itself, not authored on the stage, and an
  input of a prim that is not on the stage.
\<close>

definition materialDisplacement :: ufe_attribute where
  "materialDisplacement = usdUfeAttribute usdRunTime ''/mtl'' ''outputs:displacement''"

definition orphanInput :: ufe_attribute where
  "orphanInput = usdUfeAttribute usdRunTime ''/gone'' ''inputs:x''"

text \<open>An attribute of a Maya node, and a USD-side reference of another class.\<close>

definition mayaTranslateX :: ufe_attribute where
  "mayaTranslateX = usdUfeAttribute mayaRunTime ''|pSphere1'' ''translateX''"

definition untypedRoughness :: ufe_attribute where
  "untypedRoughness = otherUfeAttribute usdRunTime ''/mtl/preview'' ''inputs:roughness''"

section \<open>Properties of the handler, for every library\<close>

lemmas example_defs =
  exampleLibrary_def referenceLibrary_def exampleRegistry_def exampleStage_def exampleSession_def
  usdRunTime_def mayaRunTime_def usdUfeAttribute_def otherUfeAttribute_def typedView_def
  textureR_def previewRoughness_def previewMetallic_def previewSurface_def mdlSurface_def
  unknownOut_def materialSurface_def textureInfoId_def mayaTranslateX_def untypedRoughness_def
  materialDisplacement_def orphanInput_def

lemmas handler_defs =
  createConnection_def deleteConnection_def connectSockets_def usdAttrFromUfeAttr_def
  isConnected_def GetPath_def usdAttributeType_def returnConnectToSource_def TF_RUNTIME_ERROR_def
  surface_def volume_def displacement_def universalRenderContext_def apostrophe_def Let_def

lemmas ref_defs =
  ref_GetConnections_def ref_GetTypeName_def ref_GetBaseNameAndType_def ref_createAttribute_def
  ref_CreateInput_def ref_CreateOutput_def JoinIdentifier_def ref_CreateTerminalOutput_def
  ref_ConnectToSource_def ref_DisconnectSource_def ref_IsMaterial_def ref_GetShaderId_def

lemma isConnected_loop_iff: "isConnected_loop p ps \<longleftrightarrow> p \<in> set ps"
  by (induction ps) auto

subsection \<open>The coercion\<close>

lemma usdAttrFromUfeAttr_Some:
  "usdAttrFromUfeAttr X attr s = (Some u, s') \<Longrightarrow>
     \<exists>a. attr = Some a \<and> runTimeId (sceneItem a) = getUsdRunTimeId X
          \<and> dynamicUsdAttribute a = Some u \<and> s' = s"
  by (auto simp: usdAttrFromUfeAttr_def split: option.splits if_splits)

lemma usdAttrFromUfeAttr_stage: "stage (snd (usdAttrFromUfeAttr X attr s)) = stage s"
  by (simp add: usdAttrFromUfeAttr_def TF_RUNTIME_ERROR_def split: option.splits)

lemma usdAttrFromUfeAttr_stage_eq:
  "usdAttrFromUfeAttr X attr s = (r, s') \<Longrightarrow> stage s' = stage s"
  using usdAttrFromUfeAttr_stage [of X attr s] by simp

lemma usdAttrFromUfeAttr_typed:
  "runTimeId (sceneItem a) = getUsdRunTimeId X \<Longrightarrow>
     usdAttrFromUfeAttr X (Some a) s = (dynamicUsdAttribute a, s)"
  by (simp add: usdAttrFromUfeAttr_def)

lemma usdAttrFromUfeAttr_null:
  "usdAttrFromUfeAttr X None s =
     (None, s\<lparr>diagnostics := diagnostics s @ [''Invalid attribute.'']\<rparr>)"
  by (simp add: usdAttrFromUfeAttr_def TF_RUNTIME_ERROR_def)

lemma usdAttrFromUfeAttr_foreign:
  "runTimeId (sceneItem a) \<noteq> getUsdRunTimeId X \<Longrightarrow>
     usdAttrFromUfeAttr X (Some a) s =
       (None, s\<lparr>diagnostics := diagnostics s @
          [''Invalid runtime identifier for the attribute '' @ apostrophe @ name a
           @ apostrophe @ '' in the node '' @ apostrophe @ path (sceneItem a)
           @ apostrophe @ ''.'']\<rparr>)"
  by (simp add: usdAttrFromUfeAttr_def TF_RUNTIME_ERROR_def)

lemma usdAttrFromUfeAttr_fst:
  "fst (usdAttrFromUfeAttr X attr s) = fst (usdAttrFromUfeAttr X attr s')"
  by (simp add: usdAttrFromUfeAttr_def split: option.splits)

subsection \<open>The guards of the two operations\<close>

lemma createConnection_uncoerced:
  assumes "fst (usdAttrFromUfeAttr X srcAttr s) = None \<or> fst (usdAttrFromUfeAttr X dstAttr s) = None"
  shows "fst (createConnection X srcAttr dstAttr s) = False
         \<and> stage (snd (createConnection X srcAttr dstAttr s)) = stage s"
proof -
  obtain r1 s1 where c1: "usdAttrFromUfeAttr X srcAttr s = (r1, s1)"
    by (cases "usdAttrFromUfeAttr X srcAttr s")
  obtain r2 s2 where c2: "usdAttrFromUfeAttr X dstAttr s1 = (r2, s2)"
    by (cases "usdAttrFromUfeAttr X dstAttr s1")
  have st: "stage s2 = stage s"
    using usdAttrFromUfeAttr_stage_eq [OF c1] usdAttrFromUfeAttr_stage_eq [OF c2] by simp
  have "r2 = fst (usdAttrFromUfeAttr X dstAttr s)"
    using c2 usdAttrFromUfeAttr_fst [of X dstAttr s1 s] by simp
  with assms c1 have "r1 = None \<or> r2 = None" by auto
  then show ?thesis
    using c1 c2 st by (auto simp: createConnection_def split: option.splits)
qed

lemma deleteConnection_uncoerced:
  assumes "fst (usdAttrFromUfeAttr X srcAttr s) = None \<or> fst (usdAttrFromUfeAttr X dstAttr s) = None"
  shows "fst (deleteConnection X srcAttr dstAttr s) = False
         \<and> stage (snd (deleteConnection X srcAttr dstAttr s)) = stage s"
proof -
  obtain r1 s1 where c1: "usdAttrFromUfeAttr X srcAttr s = (r1, s1)"
    by (cases "usdAttrFromUfeAttr X srcAttr s")
  obtain r2 s2 where c2: "usdAttrFromUfeAttr X dstAttr s1 = (r2, s2)"
    by (cases "usdAttrFromUfeAttr X dstAttr s1")
  have st: "stage s2 = stage s"
    using usdAttrFromUfeAttr_stage_eq [OF c1] usdAttrFromUfeAttr_stage_eq [OF c2] by simp
  have "r2 = fst (usdAttrFromUfeAttr X dstAttr s)"
    using c2 usdAttrFromUfeAttr_fst [of X dstAttr s1 s] by simp
  with assms c1 have "r1 = None \<or> r2 = None" by auto
  then show ?thesis
    using c1 c2 st by (auto simp: deleteConnection_def split: option.splits)
qed

lemma createConnection_typed:
  assumes "runTimeId (sceneItem a) = getUsdRunTimeId X" "dynamicUsdAttribute a = Some su"
    and "runTimeId (sceneItem b) = getUsdRunTimeId X" "dynamicUsdAttribute b = Some du"
  shows "createConnection X (Some a) (Some b) s =
           (if isConnected X (stage s) (usdAttribute su) (usdAttribute du) then (False, s)
            else connectSockets X a su b du s)"
  using assms by (simp add: createConnection_def usdAttrFromUfeAttr_typed)

lemma deleteConnection_typed:
  assumes "runTimeId (sceneItem a) = getUsdRunTimeId X" "dynamicUsdAttribute a = Some su"
    and "runTimeId (sceneItem b) = getUsdRunTimeId X" "dynamicUsdAttribute b = Some du"
  shows "deleteConnection X (Some a) (Some b) s =
           (if \<not> isConnected X (stage s) (usdAttribute su) (usdAttribute du) then (False, s)
            else (case DisconnectSource X (usdAttribute du) (usdAttribute su) (stage s) of
                    (ok, d') \<Rightarrow> (ok, s\<lparr>stage := d'\<rparr>)))"
  using assms by (simp add: deleteConnection_def usdAttrFromUfeAttr_typed)

subsection \<open>The body of \<open>createConnection\<close>\<close>

text \<open>
  Every path through the body but one ends in the library's connect call: the source
  socket is created first, then the destination socket (the terminal output in the
  material branch), and the pair returned is the one the connect call returns.
\<close>

lemma connectSockets_result:
  assumes da: "GetBaseNameAndType X (name a) = (srcBaseName, srcAttrType)"
    and db: "GetBaseNameAndType X (name b) = (dstBaseName, dstAttrType)"
    and cs: "(if srcAttrType = Input then CreateInput X else CreateOutput X)
           (usdPrim su) srcBaseName (GetTypeName X (stage s) (usdAttribute su)) (stage s)
           = (srcSocket, d1)"
    and tm: "terminal \<longleftrightarrow>
           srcAttrType \<noteq> Input \<and> dstAttrType \<noteq> Input \<and> IsMaterial X d1 (usdPrim du)
           \<and> (dstBaseName = surface \<or> dstBaseName = volume \<or> dstBaseName = displacement)"
    and rg: "terminal \<longrightarrow>
           GetShaderNodeByIdentifier X (GetShaderId X d1 (usdPrim su)) = Some srcShaderNodeDef"
    and cd: "(if terminal then
            (if dstBaseName = surface then CreateSurfaceOutput X
             else if dstBaseName = volume then CreateVolumeOutput X
             else CreateDisplacementOutput X)
              (usdPrim du)
              (if sourceType srcShaderNodeDef = ''glslfx'' then universalRenderContext
               else sourceType srcShaderNodeDef) d1
          else (if dstAttrType = Input then CreateInput X else CreateOutput X)
                 (usdPrim du) dstBaseName (GetTypeName X d1 (usdAttribute du)) d1)
           = (dstSocket, d2)"
  shows "connectSockets X a su b du s =
           (fst (ConnectToSource X dstSocket srcSocket d2),
            s\<lparr>stage := snd (ConnectToSource X dstSocket srcSocket d2)\<rparr>)"
proof -
  note unf = connectSockets_def usdAttributeType_def returnConnectToSource_def
  show ?thesis
  proof (cases "srcAttrType = Input")
    case si: True
    then have nt: "\<not> terminal" using tm by simp
    have src: "CreateInput X (usdPrim su) srcBaseName (GetTypeName X (stage s) (usdAttribute su)) (stage s)
                 = (srcSocket, d1)"
      using cs si by simp
    show ?thesis
    proof (cases "dstAttrType = Input")
      case di: True
      have dst: "CreateInput X (usdPrim du) dstBaseName (GetTypeName X d1 (usdAttribute du)) d1
                   = (dstSocket, d2)"
        using cd nt di by simp
      show ?thesis
        by (simp add: unf da db si di src dst split: prod.splits)
    next
      case di: False
      have dst: "CreateOutput X (usdPrim du) dstBaseName (GetTypeName X d1 (usdAttribute du)) d1
                   = (dstSocket, d2)"
        using cd nt di by simp
      show ?thesis
        by (simp add: unf da db si di src dst split: prod.splits)
    qed
  next
    case si: False
    have src: "CreateOutput X (usdPrim su) srcBaseName (GetTypeName X (stage s) (usdAttribute su)) (stage s)
                 = (srcSocket, d1)"
      using cs si by simp
    show ?thesis
    proof (cases "dstAttrType = Input")
      case di: True
      then have nt: "\<not> terminal" using tm by simp
      have dst: "CreateInput X (usdPrim du) dstBaseName (GetTypeName X d1 (usdAttribute du)) d1
                   = (dstSocket, d2)"
        using cd nt di by simp
      show ?thesis
        by (simp add: unf da db si di src dst split: prod.splits)
    next
      case di: False
      show ?thesis
      proof (cases terminal)
        case tt: True
        then have mat: "IsMaterial X d1 (usdPrim du)"
          and nm: "dstBaseName = surface \<or> dstBaseName = volume \<or> dstBaseName = displacement"
          using tm by simp_all
        have reg: "GetShaderNodeByIdentifier X (GetShaderId X d1 (usdPrim su)) = Some srcShaderNodeDef"
          using rg tt by simp
        have dst: "(if dstBaseName = surface then CreateSurfaceOutput X
                    else if dstBaseName = volume then CreateVolumeOutput X
                    else CreateDisplacementOutput X)
                     (usdPrim du)
                     (if sourceType srcShaderNodeDef = ''glslfx'' then universalRenderContext
                      else sourceType srcShaderNodeDef) d1 = (dstSocket, d2)"
          using cd tt by simp
        show ?thesis
          using dst nm
          by (simp add: unf da db si di src mat reg split: prod.splits if_splits)
      next
        case nt: False
        then have notm: "\<not> (IsMaterial X d1 (usdPrim du)
             \<and> (dstBaseName = surface \<or> dstBaseName = volume \<or> dstBaseName = displacement))"
          using tm si di by simp
        have dst: "CreateOutput X (usdPrim du) dstBaseName (GetTypeName X d1 (usdAttribute du)) d1
                     = (dstSocket, d2)"
          using cd nt di by simp
        show ?thesis
          using notm
          by (cases "IsMaterial X d1 (usdPrim du)")
             (simp_all add: unf da db si di src dst split: prod.splits)
      qed
    qed
  qed
qed

text \<open>The remaining path: the material branch with an identifier the registry does not know.\<close>

lemma connectSockets_unregistered:
  assumes "GetBaseNameAndType X (name a) = (srcBaseName, srcAttrType)" "srcAttrType \<noteq> Input"
    and "GetBaseNameAndType X (name b) = (dstBaseName, dstAttrType)" "dstAttrType \<noteq> Input"
    and "dstBaseName = surface \<or> dstBaseName = volume \<or> dstBaseName = displacement"
    and "CreateOutput X (usdPrim su) srcBaseName (GetTypeName X (stage s) (usdAttribute su)) (stage s)
           = (srcOutput, d1)"
    and "IsMaterial X d1 (usdPrim du)"
    and "GetShaderNodeByIdentifier X (GetShaderId X d1 (usdPrim su)) = None"
  shows "connectSockets X a su b du s =
           (False,
            s\<lparr>stage := d1,
              diagnostics := diagnostics s @
                [''Could not find node definition '' @ apostrophe @ GetShaderId X d1 (usdPrim su)
                 @ apostrophe @ '' for node '' @ apostrophe @ path (sceneItem a) @ apostrophe
                 @ ''.'']\<rparr>)"
  using assms
  by (simp add: connectSockets_def usdAttributeType_def TF_RUNTIME_ERROR_def)


section \<open>The claims about the handler\<close>

text \<open>
  Claim C2. \<open>isConnected\<close> holds exactly when the path of the source is among the
  connection paths that the destination has on the stage. The query is a function from
  the stage to a truth value: it returns no stage, so it edits none.
\<close>

theorem isConnected_iff_path_listed:
  "isConnected X d a b \<longleftrightarrow> GetPath a \<in> set (GetConnections X d b)"
  by (simp add: isConnected_def isConnected_loop_iff)

text \<open>
  Claim C4. When the path of \<open>a\<close> is not among the connection paths of \<open>b\<close>,
  \<open>deleteConnection a b\<close> returns false and leaves the stage and the diagnostics as
  they were.
\<close>

theorem deleteConnection_not_connected:
  assumes "runTimeId (sceneItem a) = getUsdRunTimeId X" "dynamicUsdAttribute a = Some su"
    and "runTimeId (sceneItem b) = getUsdRunTimeId X" "dynamicUsdAttribute b = Some du"
    and "GetPath (usdAttribute su) \<notin> set (GetConnections X (stage s) (usdAttribute du))"
  shows "deleteConnection X (Some a) (Some b) s = (False, s)"
  using assms by (simp add: deleteConnection_typed isConnected_def isConnected_loop_iff)

theorem deleteConnection_not_connected_witness:
  "GetPath (SdfPath ''/mtl/tex'' ''outputs:r'')
     \<notin> set (GetConnections exampleLibrary exampleStage (SdfPath ''/mtl/preview'' ''inputs:metallic''))
   \<and> deleteConnection exampleLibrary (Some textureR) (Some previewMetallic) exampleSession
       = (False, exampleSession)"
proof -
  have h: "GetPath (usdAttribute (typedView ''/mtl/tex'' ''outputs:r''))
     \<notin> set (GetConnections exampleLibrary (stage exampleSession)
              (usdAttribute (typedView ''/mtl/preview'' ''inputs:metallic'')))"
    by (simp add: example_defs handler_defs ref_defs)
  have "deleteConnection exampleLibrary (Some textureR) (Some previewMetallic) exampleSession
          = (False, exampleSession)"
    by (rule deleteConnection_not_connected [OF _ _ _ _ h]) (simp_all add: example_defs)
  with h show ?thesis by (simp add: example_defs)
qed

text \<open>
  Claim C10. A non-null reference of the USD run time whose dynamic type is not the
  plug-in's attribute class: the coercion returns none and sends no diagnostic, and
  \<open>createConnection\<close> and \<open>deleteConnection\<close> return false and leave the stage
  unchanged, whichever argument the reference is and whatever the other argument is.
\<close>

theorem dynamic_cast_failure_is_silent:
  assumes "runTimeId (sceneItem a) = getUsdRunTimeId X" "dynamicUsdAttribute a = None"
  shows "usdAttrFromUfeAttr X (Some a) s = (None, s)
       \<and> fst (createConnection X (Some a) other s) = False
       \<and> stage (snd (createConnection X (Some a) other s)) = stage s
       \<and> fst (createConnection X other (Some a) s) = False
       \<and> stage (snd (createConnection X other (Some a) s)) = stage s
       \<and> fst (deleteConnection X (Some a) other s) = False
       \<and> stage (snd (deleteConnection X (Some a) other s)) = stage s
       \<and> fst (deleteConnection X other (Some a) s) = False
       \<and> stage (snd (deleteConnection X other (Some a) s)) = stage s"
proof -
  have c: "usdAttrFromUfeAttr X (Some a) s = (None, s)"
    using assms by (simp add: usdAttrFromUfeAttr_typed)
  then have n: "fst (usdAttrFromUfeAttr X (Some a) s) = None" by simp
  show ?thesis
    using c n createConnection_uncoerced [of X "Some a" s other]
      createConnection_uncoerced [of X other s "Some a"]
      deleteConnection_uncoerced [of X "Some a" s other]
      deleteConnection_uncoerced [of X other s "Some a"]
    by simp
qed

theorem dynamic_cast_failure_is_silent_witness:
  "runTimeId (sceneItem untypedRoughness) = getUsdRunTimeId exampleLibrary
   \<and> dynamicUsdAttribute untypedRoughness = None
   \<and> usdAttrFromUfeAttr exampleLibrary (Some untypedRoughness) exampleSession = (None, exampleSession)
   \<and> fst (createConnection exampleLibrary (Some textureR) (Some untypedRoughness) exampleSession) = False
   \<and> stage (snd (createConnection exampleLibrary (Some textureR) (Some untypedRoughness) exampleSession))
       = exampleStage
   \<and> fst (deleteConnection exampleLibrary (Some textureR) (Some untypedRoughness) exampleSession) = False
   \<and> stage (snd (deleteConnection exampleLibrary (Some textureR) (Some untypedRoughness) exampleSession))
       = exampleStage"
proof -
  have h1: "runTimeId (sceneItem untypedRoughness) = getUsdRunTimeId exampleLibrary"
    and h2: "dynamicUsdAttribute untypedRoughness = None"
    by (simp_all add: example_defs)
  have st: "stage exampleSession = exampleStage" by (simp add: exampleSession_def)
  from dynamic_cast_failure_is_silent [OF h1 h2, of exampleSession "Some textureR"] h1 h2 st
  show ?thesis by simp
qed

text \<open>
  Claim C5, as amended. A non-null reference of the USD run time whose object is of the
  plug-in's attribute class is coerced to that object, without a diagnostic. A null
  reference and a reference of a foreign run time are each coerced to none, with one
  diagnostic and no change of the stage; \<open>createConnection\<close> and \<open>deleteConnection\<close>
  given such a reference, as either argument, return false and leave the stage
  unchanged, whatever the other argument is.
\<close>

theorem coercion_contract:
  "(runTimeId (sceneItem a) = getUsdRunTimeId X \<and> dynamicUsdAttribute a = Some u
      \<longrightarrow> usdAttrFromUfeAttr X (Some a) s = (Some u, s))
   \<and> usdAttrFromUfeAttr X None s =
       (None, s\<lparr>diagnostics := diagnostics s @ [''Invalid attribute.'']\<rparr>)
   \<and> (runTimeId (sceneItem f) \<noteq> getUsdRunTimeId X
      \<longrightarrow> usdAttrFromUfeAttr X (Some f) s =
           (None, s\<lparr>diagnostics := diagnostics s @
              [''Invalid runtime identifier for the attribute '' @ apostrophe @ name f
               @ apostrophe @ '' in the node '' @ apostrophe @ path (sceneItem f)
               @ apostrophe @ ''.'']\<rparr>))
   \<and> (r = None \<or> (\<exists>g. r = Some g \<and> runTimeId (sceneItem g) \<noteq> getUsdRunTimeId X)
      \<longrightarrow> fst (createConnection X r other s) = False
          \<and> stage (snd (createConnection X r other s)) = stage s
          \<and> fst (createConnection X other r s) = False
          \<and> stage (snd (createConnection X other r s)) = stage s
          \<and> fst (deleteConnection X r other s) = False
          \<and> stage (snd (deleteConnection X r other s)) = stage s
          \<and> fst (deleteConnection X other r s) = False
          \<and> stage (snd (deleteConnection X other r s)) = stage s)"
proof -
  have rejected: "fst (usdAttrFromUfeAttr X r s) = None"
    if "r = None \<or> (\<exists>g. r = Some g \<and> runTimeId (sceneItem g) \<noteq> getUsdRunTimeId X)"
    using that by (auto simp: usdAttrFromUfeAttr_null usdAttrFromUfeAttr_foreign)
  show ?thesis
    using createConnection_uncoerced [of X r s other] createConnection_uncoerced [of X other s r]
      deleteConnection_uncoerced [of X r s other] deleteConnection_uncoerced [of X other s r]
      rejected
    by (simp add: usdAttrFromUfeAttr_typed usdAttrFromUfeAttr_null usdAttrFromUfeAttr_foreign)
qed

theorem coercion_contract_witness:
  "usdAttrFromUfeAttr exampleLibrary (Some textureR) exampleSession
     = (Some (typedView ''/mtl/tex'' ''outputs:r''), exampleSession)
   \<and> runTimeId (sceneItem mayaTranslateX) \<noteq> getUsdRunTimeId exampleLibrary
   \<and> fst (usdAttrFromUfeAttr exampleLibrary (Some mayaTranslateX) exampleSession) = None
   \<and> length (diagnostics (snd (usdAttrFromUfeAttr exampleLibrary (Some mayaTranslateX) exampleSession)))
       = 1
   \<and> fst (createConnection exampleLibrary (Some mayaTranslateX) (Some previewMetallic) exampleSession)
       = False
   \<and> stage (snd (createConnection exampleLibrary (Some mayaTranslateX) (Some previewMetallic)
                   exampleSession)) = exampleStage
   \<and> fst (deleteConnection exampleLibrary (Some textureR) (Some mayaTranslateX) exampleSession)
       = False
   \<and> stage (snd (deleteConnection exampleLibrary (Some textureR) (Some mayaTranslateX)
                   exampleSession)) = exampleStage
   \<and> fst (createConnection exampleLibrary (Some textureR) None exampleSession) = False
   \<and> stage (snd (createConnection exampleLibrary (Some textureR) None exampleSession))
       = exampleStage"
proof -
  have h1: "runTimeId (sceneItem textureR) = getUsdRunTimeId exampleLibrary
            \<and> dynamicUsdAttribute textureR = Some (typedView ''/mtl/tex'' ''outputs:r'')"
    and h2: "runTimeId (sceneItem mayaTranslateX) \<noteq> getUsdRunTimeId exampleLibrary"
    by (simp_all add: example_defs)
  have st: "stage exampleSession = exampleStage" "diagnostics exampleSession = []"
    by (simp_all add: exampleSession_def)
  from coercion_contract [of textureR exampleLibrary "typedView ''/mtl/tex'' ''outputs:r''"
      exampleSession mayaTranslateX "Some mayaTranslateX" "Some previewMetallic"]
    coercion_contract [of textureR exampleLibrary "typedView ''/mtl/tex'' ''outputs:r''"
      exampleSession mayaTranslateX "Some mayaTranslateX" "Some textureR"]
    coercion_contract [of textureR exampleLibrary "typedView ''/mtl/tex'' ''outputs:r''"
      exampleSession mayaTranslateX None "Some textureR"]
    h1 h2 st
  show ?thesis by simp
qed

text \<open>
  The first sentence of claim C5 as it was stated, that every non-null reference of the
  USD run time is coerced successfully, fails for a reference whose object is of
  another class.
\<close>

theorem coercion_of_matching_runtime_can_fail:
  "runTimeId (sceneItem untypedRoughness) = getUsdRunTimeId exampleLibrary
   \<and> fst (usdAttrFromUfeAttr exampleLibrary (Some untypedRoughness) exampleSession) = None"
  by (simp add: example_defs usdAttrFromUfeAttr_def)

text \<open>
  Claim C6. In the material-terminal branch the render context handed to the terminal
  operation (surface, volume or displacement, by the destination's base name) is the
  source type declared by the shader definition, except that the source type
  \<open>glslfx\<close> gives the universal render context.
\<close>

theorem terminal_render_context:
  assumes "runTimeId (sceneItem a) = getUsdRunTimeId X" "dynamicUsdAttribute a = Some su"
    and "runTimeId (sceneItem b) = getUsdRunTimeId X" "dynamicUsdAttribute b = Some du"
    and "\<not> isConnected X (stage s) (usdAttribute su) (usdAttribute du)"
    and "GetBaseNameAndType X (name a) = (srcBaseName, srcAttrType)" "srcAttrType \<noteq> Input"
    and "GetBaseNameAndType X (name b) = (dstBaseName, dstAttrType)" "dstAttrType \<noteq> Input"
    and "dstBaseName = surface \<or> dstBaseName = volume \<or> dstBaseName = displacement"
    and "CreateOutput X (usdPrim su) srcBaseName (GetTypeName X (stage s) (usdAttribute su)) (stage s)
           = (srcOutput, d')"
    and "IsMaterial X d' (usdPrim du)"
    and "GetShaderNodeByIdentifier X (GetShaderId X d' (usdPrim su)) = Some srcShaderNodeDef"
  shows "(sourceType srcShaderNodeDef \<noteq> ''glslfx'' \<longrightarrow>
            createConnection X (Some a) (Some b) s =
              (case (if dstBaseName = surface then CreateSurfaceOutput X
                     else if dstBaseName = volume then CreateVolumeOutput X
                     else CreateDisplacementOutput X)
                      (usdPrim du) (sourceType srcShaderNodeDef) d' of
                 (dstOutput, d'') \<Rightarrow> returnConnectToSource X dstOutput srcOutput d'' s))
       \<and> (sourceType srcShaderNodeDef = ''glslfx'' \<longrightarrow>
            createConnection X (Some a) (Some b) s =
              (case (if dstBaseName = surface then CreateSurfaceOutput X
                     else if dstBaseName = volume then CreateVolumeOutput X
                     else CreateDisplacementOutput X)
                      (usdPrim du) universalRenderContext d' of
                 (dstOutput, d'') \<Rightarrow> returnConnectToSource X dstOutput srcOutput d'' s))"
  using assms
  by (simp add: createConnection_typed connectSockets_def usdAttributeType_def)

theorem terminal_render_context_witness:
  "sourceType \<lparr>sourceType = ''mdl''\<rparr> \<noteq> ''glslfx''
   \<and> createConnection exampleLibrary (Some mdlSurface) (Some materialSurface) exampleSession =
     (case CreateSurfaceOutput exampleLibrary ''/mtl'' ''mdl'' exampleStage of
        (dstOutput, d'') \<Rightarrow>
          returnConnectToSource exampleLibrary dstOutput
            (ShadeOutput (SdfPath ''/mtl/mdl'' ''outputs:surface'')) d'' exampleSession)
   \<and> ''mdl'' \<noteq> universalRenderContext
   \<and> fst (CreateSurfaceOutput exampleLibrary ''/mtl'' ''mdl'' exampleStage)
       = ShadeOutput (SdfPath ''/mtl'' ''outputs:mdl:surface'')
   \<and> createConnection exampleLibrary (Some previewSurface) (Some materialSurface) exampleSession =
     (case CreateSurfaceOutput exampleLibrary ''/mtl'' universalRenderContext exampleStage of
        (dstOutput, d'') \<Rightarrow>
          returnConnectToSource exampleLibrary dstOutput
            (ShadeOutput (SdfPath ''/mtl/preview'' ''outputs:surface'')) d'' exampleSession)
   \<and> fst (CreateSurfaceOutput exampleLibrary ''/mtl'' universalRenderContext exampleStage)
       = ShadeOutput (SdfPath ''/mtl'' ''outputs:surface'')"
proof -
  note defs = example_defs handler_defs ref_defs
  have mdl: "createConnection exampleLibrary (Some mdlSurface) (Some materialSurface) exampleSession =
     (case CreateSurfaceOutput exampleLibrary ''/mtl'' ''mdl'' exampleStage of
        (dstOutput, d'') \<Rightarrow>
          returnConnectToSource exampleLibrary dstOutput
            (ShadeOutput (SdfPath ''/mtl/mdl'' ''outputs:surface'')) d'' exampleSession)"
    using terminal_render_context
          [where X = exampleLibrary and a = mdlSurface and b = materialSurface
             and s = exampleSession
             and su = "typedView ''/mtl/mdl'' ''outputs:surface''"
             and du = "typedView ''/mtl'' ''outputs:surface''"
             and srcBaseName = "''surface''" and dstBaseName = "''surface''"
             and srcAttrType = Output and dstAttrType = Output
             and srcOutput = "ShadeOutput (SdfPath ''/mtl/mdl'' ''outputs:surface'')"
             and d' = exampleStage and srcShaderNodeDef = "\<lparr>sourceType = ''mdl''\<rparr>"]
    by (simp add: defs)
  have legacy:
    "createConnection exampleLibrary (Some previewSurface) (Some materialSurface) exampleSession =
     (case CreateSurfaceOutput exampleLibrary ''/mtl'' universalRenderContext exampleStage of
        (dstOutput, d'') \<Rightarrow>
          returnConnectToSource exampleLibrary dstOutput
            (ShadeOutput (SdfPath ''/mtl/preview'' ''outputs:surface'')) d'' exampleSession)"
    using terminal_render_context
          [where X = exampleLibrary and a = previewSurface and b = materialSurface
             and s = exampleSession
             and su = "typedView ''/mtl/preview'' ''outputs:surface''"
             and du = "typedView ''/mtl'' ''outputs:surface''"
             and srcBaseName = "''surface''" and dstBaseName = "''surface''"
             and srcAttrType = Output and dstAttrType = Output
             and srcOutput = "ShadeOutput (SdfPath ''/mtl/preview'' ''outputs:surface'')"
             and d' = exampleStage and srcShaderNodeDef = "\<lparr>sourceType = ''glslfx''\<rparr>"]
    by (simp add: defs)
  have rest: "sourceType \<lparr>sourceType = ''mdl''\<rparr> \<noteq> ''glslfx''
     \<and> ''mdl'' \<noteq> universalRenderContext
     \<and> fst (CreateSurfaceOutput exampleLibrary ''/mtl'' ''mdl'' exampleStage)
         = ShadeOutput (SdfPath ''/mtl'' ''outputs:mdl:surface'')
     \<and> fst (CreateSurfaceOutput exampleLibrary ''/mtl'' universalRenderContext exampleStage)
         = ShadeOutput (SdfPath ''/mtl'' ''outputs:surface'')"
    by (simp add: defs)
  from mdl legacy rest show ?thesis
    by simp
qed

text \<open>
  Claim C8. Past the guard, and with the registry lookup of the terminal branch (when
  that branch is taken) successful, \<open>createConnection\<close> returns the truth value of the
  one connect call of its case: destination socket and source socket as created for
  the two decoded types, on the stage the socket creations left. There is no other
  result.
\<close>

theorem createConnection_returns_connect_result:
  assumes "runTimeId (sceneItem a) = getUsdRunTimeId X" "dynamicUsdAttribute a = Some su"
    and "runTimeId (sceneItem b) = getUsdRunTimeId X" "dynamicUsdAttribute b = Some du"
    and "\<not> isConnected X (stage s) (usdAttribute su) (usdAttribute du)"
    and "GetBaseNameAndType X (name a) = (srcBaseName, srcAttrType)"
    and "GetBaseNameAndType X (name b) = (dstBaseName, dstAttrType)"
    and "(if srcAttrType = Input then CreateInput X else CreateOutput X)
           (usdPrim su) srcBaseName (GetTypeName X (stage s) (usdAttribute su)) (stage s)
           = (srcSocket, d')"
    and "terminal \<longleftrightarrow>
           srcAttrType \<noteq> Input \<and> dstAttrType \<noteq> Input \<and> IsMaterial X d' (usdPrim du)
           \<and> (dstBaseName = surface \<or> dstBaseName = volume \<or> dstBaseName = displacement)"
    and "terminal \<longrightarrow>
           GetShaderNodeByIdentifier X (GetShaderId X d' (usdPrim su)) = Some srcShaderNodeDef"
    and "(if terminal then
            (if dstBaseName = surface then CreateSurfaceOutput X
             else if dstBaseName = volume then CreateVolumeOutput X
             else CreateDisplacementOutput X)
              (usdPrim du)
              (if sourceType srcShaderNodeDef = ''glslfx'' then universalRenderContext
               else sourceType srcShaderNodeDef) d'
          else (if dstAttrType = Input then CreateInput X else CreateOutput X)
                 (usdPrim du) dstBaseName (GetTypeName X d' (usdAttribute du)) d')
           = (dstSocket, d'')"
  shows "createConnection X (Some a) (Some b) s =
           (fst (ConnectToSource X dstSocket srcSocket d''),
            s\<lparr>stage := snd (ConnectToSource X dstSocket srcSocket d'')\<rparr>)"
proof -
  have "connectSockets X a su b du s =
           (fst (ConnectToSource X dstSocket srcSocket d''),
            s\<lparr>stage := snd (ConnectToSource X dstSocket srcSocket d'')\<rparr>)"
    by (rule connectSockets_result [OF assms(6-11)])
  then show ?thesis
    using assms(1-5) by (simp add: createConnection_typed)
qed

theorem createConnection_returns_connect_result_witness:
  "\<not> isConnected exampleLibrary exampleStage (SdfPath ''/mtl/tex'' ''outputs:r'')
        (SdfPath ''/mtl/preview'' ''inputs:metallic'')
   \<and> createConnection exampleLibrary (Some textureR) (Some previewMetallic) exampleSession =
       (fst (ConnectToSource exampleLibrary (ShadeInput (SdfPath ''/mtl/preview'' ''inputs:metallic''))
               (ShadeOutput (SdfPath ''/mtl/tex'' ''outputs:r'')) exampleStage),
        exampleSession\<lparr>stage :=
          snd (ConnectToSource exampleLibrary (ShadeInput (SdfPath ''/mtl/preview'' ''inputs:metallic''))
                 (ShadeOutput (SdfPath ''/mtl/tex'' ''outputs:r'')) exampleStage)\<rparr>)
   \<and> fst (createConnection exampleLibrary (Some textureR) (Some previewMetallic) exampleSession)
       = True
   \<and> GetShaderNodeByIdentifier exampleLibrary (GetShaderId exampleLibrary exampleStage ''/mtl/preview'')
       = Some \<lparr>sourceType = ''glslfx''\<rparr>
   \<and> createConnection exampleLibrary (Some previewSurface) (Some materialSurface) exampleSession =
       (fst (ConnectToSource exampleLibrary (ShadeOutput (SdfPath ''/mtl'' ''outputs:surface''))
               (ShadeOutput (SdfPath ''/mtl/preview'' ''outputs:surface'')) exampleStage),
        exampleSession\<lparr>stage :=
          snd (ConnectToSource exampleLibrary (ShadeOutput (SdfPath ''/mtl'' ''outputs:surface''))
                 (ShadeOutput (SdfPath ''/mtl/preview'' ''outputs:surface'')) exampleStage)\<rparr>)"
proof -
  note defs = example_defs handler_defs ref_defs
  have r: "createConnection exampleLibrary (Some textureR) (Some previewMetallic) exampleSession =
       (fst (ConnectToSource exampleLibrary (ShadeInput (SdfPath ''/mtl/preview'' ''inputs:metallic''))
               (ShadeOutput (SdfPath ''/mtl/tex'' ''outputs:r'')) exampleStage),
        exampleSession\<lparr>stage :=
          snd (ConnectToSource exampleLibrary (ShadeInput (SdfPath ''/mtl/preview'' ''inputs:metallic''))
                 (ShadeOutput (SdfPath ''/mtl/tex'' ''outputs:r'')) exampleStage)\<rparr>)"
    by (rule createConnection_returns_connect_result
          [where su = "typedView ''/mtl/tex'' ''outputs:r''"
             and du = "typedView ''/mtl/preview'' ''inputs:metallic''"
             and srcBaseName = "''r''" and dstBaseName = "''metallic''"
             and srcAttrType = Output and dstAttrType = Input
             and terminal = False and d' = exampleStage
             and srcShaderNodeDef = "\<lparr>sourceType = []\<rparr>"])
       (simp_all add: defs)
  have tr: "createConnection exampleLibrary (Some previewSurface) (Some materialSurface)
              exampleSession =
       (fst (ConnectToSource exampleLibrary (ShadeOutput (SdfPath ''/mtl'' ''outputs:surface''))
               (ShadeOutput (SdfPath ''/mtl/preview'' ''outputs:surface'')) exampleStage),
        exampleSession\<lparr>stage :=
          snd (ConnectToSource exampleLibrary (ShadeOutput (SdfPath ''/mtl'' ''outputs:surface''))
                 (ShadeOutput (SdfPath ''/mtl/preview'' ''outputs:surface'')) exampleStage)\<rparr>)"
    by (rule createConnection_returns_connect_result
          [where su = "typedView ''/mtl/preview'' ''outputs:surface''"
             and du = "typedView ''/mtl'' ''outputs:surface''"
             and srcBaseName = "''surface''" and dstBaseName = "''surface''"
             and srcAttrType = Output and dstAttrType = Output
             and terminal = True and d' = exampleStage
             and srcShaderNodeDef = "\<lparr>sourceType = ''glslfx''\<rparr>"])
       (simp_all add: defs)
  have nc: "\<not> isConnected exampleLibrary exampleStage (SdfPath ''/mtl/tex'' ''outputs:r'')
        (SdfPath ''/mtl/preview'' ''inputs:metallic'')"
    by (simp add: defs)
  have ok: "fst (ConnectToSource exampleLibrary (ShadeInput (SdfPath ''/mtl/preview'' ''inputs:metallic''))
               (ShadeOutput (SdfPath ''/mtl/tex'' ''outputs:r'')) exampleStage) = True"
    by (simp add: defs)
  have reg: "GetShaderNodeByIdentifier exampleLibrary
               (GetShaderId exampleLibrary exampleStage ''/mtl/preview'')
             = Some \<lparr>sourceType = ''glslfx''\<rparr>"
    by (simp add: defs)
  show ?thesis
    using nc ok reg unfolding r tr by simp
qed

section \<open>The handler on the reference library\<close>

subsection \<open>What the library operations do to the stage\<close>

lemma ref_decode_Input:
  assumes "ref_GetBaseNameAndType n = (b, Input)"
  shows "n = ''inputs:'' @ b"
proof -
  have "take 7 n = ''inputs:'' \<and> b = drop 7 n"
    using assms unfolding ref_GetBaseNameAndType_def by (simp split: if_splits)
  then have "take 7 n @ drop 7 n = ''inputs:'' @ b" by simp
  then show ?thesis by (simp only: append_take_drop_id)
qed

lemma ref_decode_Output:
  assumes "ref_GetBaseNameAndType n = (b, Output)"
  shows "n = ''outputs:'' @ b"
proof -
  have "take 8 n = ''outputs:'' \<and> b = drop 8 n"
    using assms unfolding ref_GetBaseNameAndType_def by (simp split: if_splits)
  then have "take 8 n @ drop 8 n = ''outputs:'' @ b" by simp
  then show ?thesis by (simp only: append_take_drop_id)
qed

lemma ref_createAttribute_prims: "prims (ref_createAttribute p n ty d) = prims d"
  by (simp add: ref_createAttribute_def split: option.splits)

lemma ref_ConnectToSource_True:
  "ref_ConnectToSource dst src d = (True, d') \<Longrightarrow> ref_GetConnections d' (GetAttr dst) = [GetAttr src]"
  by (auto simp: ref_ConnectToSource_def ref_GetConnections_def split: option.splits)

lemma ref_DisconnectSource_True:
  "ref_DisconnectSource dstAttr srcAttr d = (True, d') \<Longrightarrow> srcAttr \<notin> set (ref_GetConnections d' dstAttr)"
  by (auto simp: ref_DisconnectSource_def ref_GetConnections_def split: option.splits)


lemma ref_ConnectToSource_False:
  "fst (ref_ConnectToSource x y d) = False \<Longrightarrow> snd (ref_ConnectToSource x y d) = d"
  by (simp add: ref_ConnectToSource_def split: option.splits)

subsection \<open>Sockets are created and connected, never removed\<close>

text \<open>
  \<open>createConnection\<close> composes operations of the library and nothing else: a relation
  on stages that is reflexive and transitive and that every editing operation of the
  library respects holds between the stage before the call and the stage after it.
\<close>

lemma connectSockets_steps:
  assumes rf: "\<And>d. R d d"
    and tr: "\<And>d d' d''. R d d' \<Longrightarrow> R d' d'' \<Longrightarrow> R d d''"
    and ci: "\<And>p n t d. R d (snd (CreateInput X p n t d))"
    and co: "\<And>p n t d. R d (snd (CreateOutput X p n t d))"
    and cs: "\<And>p c d. R d (snd (CreateSurfaceOutput X p c d))"
    and cv: "\<And>p c d. R d (snd (CreateVolumeOutput X p c d))"
    and cd: "\<And>p c d. R d (snd (CreateDisplacementOutput X p c d))"
    and cn: "\<And>x y d. R d (snd (ConnectToSource X x y d))"
  shows "R (stage s) (stage (snd (connectSockets X a su b du s)))"
proof -
  have ci': "\<And>p n t d r d'. CreateInput X p n t d = (r, d') \<Longrightarrow> R d d'"
    using ci by (metis snd_conv)
  have co': "\<And>p n t d r d'. CreateOutput X p n t d = (r, d') \<Longrightarrow> R d d'"
    using co by (metis snd_conv)
  have cs': "\<And>p c d r d'. CreateSurfaceOutput X p c d = (r, d') \<Longrightarrow> R d d'"
    using cs by (metis snd_conv)
  have cv': "\<And>p c d r d'. CreateVolumeOutput X p c d = (r, d') \<Longrightarrow> R d d'"
    using cv by (metis snd_conv)
  have cd': "\<And>p c d r d'. CreateDisplacementOutput X p c d = (r, d') \<Longrightarrow> R d d'"
    using cd by (metis snd_conv)
  have cn': "\<And>x y d r d'. ConnectToSource X x y d = (r, d') \<Longrightarrow> R d d'"
    using cn by (metis snd_conv)
  show ?thesis
    unfolding connectSockets_def returnConnectToSource_def TF_RUNTIME_ERROR_def Let_def
    by (auto split: prod.splits option.splits if_splits
          intro: tr [OF ci' tr [OF ci' cn']] tr [OF ci' tr [OF co' cn']]
            tr [OF co' tr [OF ci' cn']] tr [OF co' tr [OF co' cn']]
            tr [OF co' tr [OF cs' cn']] tr [OF co' tr [OF cv' cn']] tr [OF co' tr [OF cd' cn']]
            co')
qed

lemma createConnection_steps:
  assumes rf: "\<And>d. R d d"
    and tr: "\<And>d d' d''. R d d' \<Longrightarrow> R d' d'' \<Longrightarrow> R d d''"
    and ci: "\<And>p n t d. R d (snd (CreateInput X p n t d))"
    and co: "\<And>p n t d. R d (snd (CreateOutput X p n t d))"
    and cs: "\<And>p c d. R d (snd (CreateSurfaceOutput X p c d))"
    and cv: "\<And>p c d. R d (snd (CreateVolumeOutput X p c d))"
    and cd: "\<And>p c d. R d (snd (CreateDisplacementOutput X p c d))"
    and cn: "\<And>x y d. R d (snd (ConnectToSource X x y d))"
  shows "R (stage s) (stage (snd (createConnection X srcAttr dstAttr s)))"
proof -
  obtain r1 s1 where c1: "usdAttrFromUfeAttr X srcAttr s = (r1, s1)" by (cases "usdAttrFromUfeAttr X srcAttr s")
  obtain r2 s2 where c2: "usdAttrFromUfeAttr X dstAttr s1 = (r2, s2)" by (cases "usdAttrFromUfeAttr X dstAttr s1")
  have st: "stage s2 = stage s"
    using usdAttrFromUfeAttr_stage_eq [OF c1] usdAttrFromUfeAttr_stage_eq [OF c2] by simp
  have k: "R (stage s2) (stage (snd (connectSockets X a su b du s2)))" for a su b du
    by (rule connectSockets_steps [of R X, OF rf tr ci co cs cv cd cn])
  show ?thesis
    using k rf by (auto simp: createConnection_def c1 c2 st [symmetric] split: option.splits)
qed

lemma ref_createAttribute_dom: "dom (attrs d) \<subseteq> dom (attrs (ref_createAttribute p n t d))"
  by (auto simp: ref_createAttribute_def split: option.splits)

lemma ref_ConnectToSource_dom: "dom (attrs d) \<subseteq> dom (attrs (snd (ref_ConnectToSource x y d)))"
  by (auto simp: ref_ConnectToSource_def split: option.splits)

lemma ref_createConnection_dom:
  "dom (attrs (stage s))
     \<subseteq> dom (attrs (stage (snd (createConnection (referenceLibrary rtid registry) srcAttr dstAttr s))))"
proof (rule createConnection_steps [where R = "\<lambda>d d'. dom (attrs d) \<subseteq> dom (attrs d')"])
  fix x y d
  show "dom (attrs d) \<subseteq> dom (attrs (snd (ConnectToSource (referenceLibrary rtid registry) x y d)))"
    by (simp add: referenceLibrary_def ref_ConnectToSource_dom)
qed (simp_all add: referenceLibrary_def ref_CreateInput_def ref_CreateOutput_def
       ref_CreateTerminalOutput_def ref_createAttribute_dom)

subsection \<open>The round trip\<close>

lemma ref_delete_roundtrip:
  assumes "runTimeId (sceneItem a) = rtid" "dynamicUsdAttribute a = Some su"
    and "runTimeId (sceneItem b) = rtid" "dynamicUsdAttribute b = Some du"
    and "deleteConnection (referenceLibrary rtid registry) (Some a) (Some b) s = (True, s')"
  shows "\<not> isConnected (referenceLibrary rtid registry) (stage s') (usdAttribute su) (usdAttribute du)"
proof -
  let ?X = "referenceLibrary rtid registry"
  have rt: "getUsdRunTimeId ?X = rtid" by (simp add: referenceLibrary_def)
  have "deleteConnection ?X (Some a) (Some b) s =
           (if \<not> isConnected ?X (stage s) (usdAttribute su) (usdAttribute du) then (False, s)
            else (case DisconnectSource ?X (usdAttribute du) (usdAttribute su) (stage s) of
                    (ok, d') \<Rightarrow> (ok, s\<lparr>stage := d'\<rparr>)))"
    using assms(1-4) rt by (intro deleteConnection_typed) simp_all
  with assms(5) have "ref_DisconnectSource (usdAttribute du) (usdAttribute su) (stage s) = (True, stage s')"
    by (auto simp: referenceLibrary_def split: if_splits prod.splits)
  from ref_DisconnectSource_True [OF this] show ?thesis
    by (simp add: isConnected_def isConnected_loop_iff GetPath_def referenceLibrary_def)
qed


lemma ref_connectSockets_roundtrip:
  assumes own: "namesOwnAttribute a su" "namesOwnAttribute b du"
    and ns: "namespaced a" "namespaced b"
    and nq: "\<not> qualifiedTerminal registry (stage s) a su b du"
    and res: "connectSockets (referenceLibrary rtid registry) a su b du s = (True, s')"
  shows "isConnected (referenceLibrary rtid registry) (stage s') (usdAttribute su) (usdAttribute du)"
proof -
  let ?X = "referenceLibrary rtid registry"
  obtain srcBaseName srcAttrType where da: "ref_GetBaseNameAndType (name a) = (srcBaseName, srcAttrType)"
    by (cases "ref_GetBaseNameAndType (name a)")
  obtain dstBaseName dstAttrType where db: "ref_GetBaseNameAndType (name b) = (dstBaseName, dstAttrType)"
    by (cases "ref_GetBaseNameAndType (name b)")
  define srcTy where "srcTy = ref_GetTypeName (stage s) (usdAttribute su)"
  define srcSocket where
    "srcSocket = fst ((if srcAttrType = Input then ref_CreateInput else ref_CreateOutput)
                        (usdPrim su) srcBaseName srcTy (stage s))"
  define d1 where
    "d1 = snd ((if srcAttrType = Input then ref_CreateInput else ref_CreateOutput)
                        (usdPrim su) srcBaseName srcTy (stage s))"
  define terminal where
    "terminal \<longleftrightarrow> srcAttrType \<noteq> Input \<and> dstAttrType \<noteq> Input \<and> ref_IsMaterial d1 (usdPrim du)
           \<and> (dstBaseName = surface \<or> dstBaseName = volume \<or> dstBaseName = displacement)"
  have srcPath: "GetAttr srcSocket = usdAttribute su"
    using own(1) ns(1) da ref_decode_Input [of "name a" srcBaseName] ref_decode_Output [of "name a" srcBaseName]
    by (cases srcAttrType)
       (auto simp: srcSocket_def namesOwnAttribute_def namespaced_def ref_CreateInput_def
          ref_CreateOutput_def)
  have prims1: "prims d1 = prims (stage s)"
    by (simp add: d1_def ref_CreateInput_def ref_CreateOutput_def ref_createAttribute_prims)
  have mat1: "ref_IsMaterial d1 (usdPrim du) = ref_IsMaterial (stage s) (usdPrim du)"
    and id1: "ref_GetShaderId d1 (usdPrim su) = ref_GetShaderId (stage s) (usdPrim su)"
    by (simp_all add: ref_IsMaterial_def ref_GetShaderId_def prims1)
  have X: "GetBaseNameAndType ?X = ref_GetBaseNameAndType" "CreateInput ?X = ref_CreateInput"
    "CreateOutput ?X = ref_CreateOutput" "GetTypeName ?X = ref_GetTypeName"
    "IsMaterial ?X = ref_IsMaterial" "GetShaderId ?X = ref_GetShaderId"
    "GetShaderNodeByIdentifier ?X = registry" "ConnectToSource ?X = ref_ConnectToSource"
    "CreateSurfaceOutput ?X = ref_CreateTerminalOutput surface"
    "CreateVolumeOutput ?X = ref_CreateTerminalOutput volume"
    "CreateDisplacementOutput ?X = ref_CreateTerminalOutput displacement"
    "GetConnections ?X = ref_GetConnections"
    by (simp_all add: referenceLibrary_def)
  have cs: "(if srcAttrType = Input then CreateInput ?X else CreateOutput ?X)
              (usdPrim su) srcBaseName (GetTypeName ?X (stage s) (usdAttribute su)) (stage s)
              = (srcSocket, d1)"
    by (simp add: X srcSocket_def d1_def srcTy_def)
  have tm: "terminal \<longleftrightarrow>
           srcAttrType \<noteq> Input \<and> dstAttrType \<noteq> Input \<and> IsMaterial ?X d1 (usdPrim du)
           \<and> (dstBaseName = surface \<or> dstBaseName = volume \<or> dstBaseName = displacement)"
    by (simp add: X terminal_def)
  have connected:
    "isConnected ?X (stage s') (usdAttribute su) (usdAttribute du)"
    if r: "connectSockets ?X a su b du s =
             (fst (ConnectToSource ?X dstSocket srcSocket d2),
              s\<lparr>stage := snd (ConnectToSource ?X dstSocket srcSocket d2)\<rparr>)"
      and p: "GetAttr dstSocket = usdAttribute du"
    for dstSocket d2
  proof -
    from r res have "ref_ConnectToSource dstSocket srcSocket d2 = (True, stage s')"
      by (cases "ref_ConnectToSource dstSocket srcSocket d2") (auto simp: X)
    from ref_ConnectToSource_True [OF this] show ?thesis
      by (simp add: isConnected_def GetPath_def X p srcPath)
  qed
  show ?thesis
  proof (cases terminal)
    case tt: True
    then have so: "srcAttrType = Output" and dob: "dstAttrType = Output"
      using ns da db by (cases srcAttrType; cases dstAttrType; simp add: terminal_def namespaced_def)+
    from tt have mat: "ref_IsMaterial (stage s) (usdPrim du)"
      and nm: "dstBaseName = surface \<or> dstBaseName = volume \<or> dstBaseName = displacement"
      by (simp_all add: terminal_def mat1)
    show ?thesis
    proof (cases "registry (ref_GetShaderId (stage s) (usdPrim su))")
      case None
      have "connectSockets ?X a su b du s =
              (False,
               s\<lparr>stage := d1,
                 diagnostics := diagnostics s @
                   [''Could not find node definition '' @ apostrophe @ GetShaderId ?X d1 (usdPrim su)
                    @ apostrophe @ '' for node '' @ apostrophe @ path (sceneItem a) @ apostrophe
                    @ ''.'']\<rparr>)"
      proof (rule connectSockets_unregistered)
        show "GetBaseNameAndType ?X (name a) = (srcBaseName, srcAttrType)" by (simp add: X da)
        show "srcAttrType \<noteq> Input" by (simp add: so)
        show "GetBaseNameAndType ?X (name b) = (dstBaseName, dstAttrType)" by (simp add: X db)
        show "dstAttrType \<noteq> Input" by (simp add: dob)
        show "dstBaseName = surface \<or> dstBaseName = volume \<or> dstBaseName = displacement" by (rule nm)
        show "CreateOutput ?X (usdPrim su) srcBaseName (GetTypeName ?X (stage s) (usdAttribute su)) (stage s)
                = (srcSocket, d1)"
          using cs so by simp
        show "IsMaterial ?X d1 (usdPrim du)" by (simp add: X mat1 mat)
        show "GetShaderNodeByIdentifier ?X (GetShaderId ?X d1 (usdPrim su)) = None"
          by (simp add: X id1 None)
      qed
      with res show ?thesis by simp
    next
      case (Some nd)
      have uni: "sourceType nd = ''glslfx'' \<or> sourceType nd = universalRenderContext"
        using nq da db so dob nm mat Some by (auto simp: qualifiedTerminal_def)
      define dstSocket where
        "dstSocket = fst (ref_CreateTerminalOutput dstBaseName (usdPrim du) universalRenderContext d1)"
      define d2 where
        "d2 = snd (ref_CreateTerminalOutput dstBaseName (usdPrim du) universalRenderContext d1)"
      have ctx: "(if sourceType nd = ''glslfx'' then universalRenderContext else sourceType nd)
                   = universalRenderContext"
        using uni by auto
      have cd: "(if terminal then
            (if dstBaseName = surface then CreateSurfaceOutput ?X
             else if dstBaseName = volume then CreateVolumeOutput ?X
             else CreateDisplacementOutput ?X)
              (usdPrim du)
              (if sourceType nd = ''glslfx'' then universalRenderContext else sourceType nd) d1
          else (if dstAttrType = Input then CreateInput ?X else CreateOutput ?X)
                 (usdPrim du) dstBaseName (GetTypeName ?X d1 (usdAttribute du)) d1)
           = (dstSocket, d2)"
        using nm by (auto simp only: tt ctx X dstSocket_def d2_def if_True prod.collapse split: if_splits)
      have p: "GetAttr dstSocket = usdAttribute du"
        using own(2) db dob ref_decode_Output [of "name b" dstBaseName]
        by (simp add: dstSocket_def ref_CreateTerminalOutput_def ref_CreateOutput_def
              JoinIdentifier_def universalRenderContext_def namesOwnAttribute_def)
      have "connectSockets ?X a su b du s =
             (fst (ConnectToSource ?X dstSocket srcSocket d2),
              s\<lparr>stage := snd (ConnectToSource ?X dstSocket srcSocket d2)\<rparr>)"
      proof (rule connectSockets_result [where terminal = terminal and srcShaderNodeDef = nd])
        show "GetBaseNameAndType ?X (name a) = (srcBaseName, srcAttrType)" by (simp add: X da)
        show "GetBaseNameAndType ?X (name b) = (dstBaseName, dstAttrType)" by (simp add: X db)
        show "terminal \<longrightarrow> GetShaderNodeByIdentifier ?X (GetShaderId ?X d1 (usdPrim su)) = Some nd"
          by (simp add: X id1 Some)
      qed (fact cs tm cd)+
      then show ?thesis using p by (rule connected)
    qed
  next
    case nt: False
    define dstSocket where
      "dstSocket = fst ((if dstAttrType = Input then ref_CreateInput else ref_CreateOutput)
                 (usdPrim du) dstBaseName (ref_GetTypeName d1 (usdAttribute du)) d1)"
    define d2 where
      "d2 = snd ((if dstAttrType = Input then ref_CreateInput else ref_CreateOutput)
                 (usdPrim du) dstBaseName (ref_GetTypeName d1 (usdAttribute du)) d1)"
    have cd: "(if terminal then
            (if dstBaseName = surface then CreateSurfaceOutput ?X
             else if dstBaseName = volume then CreateVolumeOutput ?X
             else CreateDisplacementOutput ?X)
              (usdPrim du)
              (if sourceType \<lparr>sourceType = []\<rparr> = ''glslfx'' then universalRenderContext
               else sourceType \<lparr>sourceType = []\<rparr>) d1
          else (if dstAttrType = Input then CreateInput ?X else CreateOutput ?X)
                 (usdPrim du) dstBaseName (GetTypeName ?X d1 (usdAttribute du)) d1)
           = (dstSocket, d2)"
      by (simp add: nt X dstSocket_def d2_def)
    have p: "GetAttr dstSocket = usdAttribute du"
      using own(2) ns(2) db ref_decode_Input [of "name b" dstBaseName]
        ref_decode_Output [of "name b" dstBaseName]
      by (cases dstAttrType)
         (auto simp: dstSocket_def namesOwnAttribute_def namespaced_def ref_CreateInput_def
            ref_CreateOutput_def)
    have "connectSockets ?X a su b du s =
           (fst (ConnectToSource ?X dstSocket srcSocket d2),
            s\<lparr>stage := snd (ConnectToSource ?X dstSocket srcSocket d2)\<rparr>)"
    proof (rule connectSockets_result [where terminal = terminal and srcShaderNodeDef = "\<lparr>sourceType = []\<rparr>"])
      show "GetBaseNameAndType ?X (name a) = (srcBaseName, srcAttrType)" by (simp add: X da)
      show "GetBaseNameAndType ?X (name b) = (dstBaseName, dstAttrType)" by (simp add: X db)
      show "terminal \<longrightarrow> GetShaderNodeByIdentifier ?X (GetShaderId ?X d1 (usdPrim su)) = Some \<lparr>sourceType = []\<rparr>"
        by (simp add: nt)
    qed (fact cs tm cd)+
    then show ?thesis using p by (rule connected)
  qed
qed

lemma ref_createConnection_roundtrip:
  assumes ty: "runTimeId (sceneItem a) = rtid" "dynamicUsdAttribute a = Some su"
      "runTimeId (sceneItem b) = rtid" "dynamicUsdAttribute b = Some du"
    and own: "namesOwnAttribute a su" "namesOwnAttribute b du"
    and ns: "namespaced a" "namespaced b"
    and nq: "\<not> qualifiedTerminal registry (stage t) a su b du"
    and res: "createConnection (referenceLibrary rtid registry) (Some a) (Some b) t = (True, t')"
  shows "isConnected (referenceLibrary rtid registry) (stage t') (usdAttribute su) (usdAttribute du)"
proof -
  let ?X = "referenceLibrary rtid registry"
  have rt: "getUsdRunTimeId ?X = rtid" by (simp add: referenceLibrary_def)
  have "createConnection ?X (Some a) (Some b) t =
           (if isConnected ?X (stage t) (usdAttribute su) (usdAttribute du) then (False, t)
            else connectSockets ?X a su b du t)"
    using ty rt by (intro createConnection_typed) simp_all
  with res have "connectSockets ?X a su b du t = (True, t')"
    by (simp split: if_splits)
  with own ns nq show ?thesis by (rule ref_connectSockets_roundtrip)
qed

section \<open>The claims that depend on the library\<close>

text \<open>
  Claim C1, as amended. On the reference library: when \<open>deleteConnection a b\<close>
  returns true, \<open>isConnected a b\<close> is false on the stage it leaves. When
  \<open>createConnection a b\<close> returns true, \<open>isConnected a b\<close> is true on the stage it
  leaves, provided the sockets the call connects are \<open>a\<close> and \<open>b\<close> themselves: each
  reference names an attribute of its own prim in the \<open>inputs:\<close> or \<open>outputs:\<close>
  namespace, and the call does not create a material terminal output under a render
  context other than the universal one.
\<close>

theorem connection_round_trip:
  assumes "runTimeId (sceneItem a) = rtid" "dynamicUsdAttribute a = Some su"
    and "runTimeId (sceneItem b) = rtid" "dynamicUsdAttribute b = Some du"
  shows "(deleteConnection (referenceLibrary rtid registry) (Some a) (Some b) s = (True, s')
            \<longrightarrow> \<not> isConnected (referenceLibrary rtid registry) (stage s')
                    (usdAttribute su) (usdAttribute du))
       \<and> (createConnection (referenceLibrary rtid registry) (Some a) (Some b) t = (True, t')
            \<and> namesOwnAttribute a su \<and> namesOwnAttribute b du \<and> namespaced a \<and> namespaced b
            \<and> \<not> qualifiedTerminal registry (stage t) a su b du
            \<longrightarrow> isConnected (referenceLibrary rtid registry) (stage t')
                  (usdAttribute su) (usdAttribute du))"
  using ref_delete_roundtrip [OF assms, of registry s s']
    ref_createConnection_roundtrip [OF assms, of registry t t']
  by blast

theorem connection_round_trip_witness:
  "fst (deleteConnection exampleLibrary (Some textureR) (Some previewRoughness) exampleSession) = True
   \<and> \<not> isConnected exampleLibrary
         (stage (snd (deleteConnection exampleLibrary (Some textureR) (Some previewRoughness)
                        exampleSession)))
         (SdfPath ''/mtl/tex'' ''outputs:r'') (SdfPath ''/mtl/preview'' ''inputs:roughness'')
   \<and> fst (createConnection exampleLibrary (Some textureR) (Some previewRoughness)
            (snd (deleteConnection exampleLibrary (Some textureR) (Some previewRoughness)
                    exampleSession))) = True
   \<and> isConnected exampleLibrary
       (stage (snd (createConnection exampleLibrary (Some textureR) (Some previewRoughness)
                (snd (deleteConnection exampleLibrary (Some textureR) (Some previewRoughness)
                        exampleSession)))))
       (SdfPath ''/mtl/tex'' ''outputs:r'') (SdfPath ''/mtl/preview'' ''inputs:roughness'')"
proof -
  note defs = example_defs handler_defs ref_defs
  define s1 where
    "s1 = snd (deleteConnection exampleLibrary (Some textureR) (Some previewRoughness) exampleSession)"
  define s2 where
    "s2 = snd (createConnection exampleLibrary (Some textureR) (Some previewRoughness) s1)"
  have s1: "s1 = exampleSession\<lparr>stage := exampleStage\<lparr>attrs :=
              (attrs exampleStage)(SdfPath ''/mtl/preview'' ''inputs:roughness'' \<mapsto>
                 \<lparr>typeName = ''float'', connectionPaths = []\<rparr>)\<rparr>\<rparr>"
    unfolding s1_def by (simp add: defs)
  have del: "deleteConnection exampleLibrary (Some textureR) (Some previewRoughness) exampleSession
               = (True, s1)"
    unfolding s1 by (simp add: defs)
  have cre: "createConnection exampleLibrary (Some textureR) (Some previewRoughness) s1 = (True, s2)"
    unfolding s2_def s1 by (simp add: defs)
  have side: "namesOwnAttribute textureR (typedView ''/mtl/tex'' ''outputs:r'')
      \<and> namesOwnAttribute previewRoughness (typedView ''/mtl/preview'' ''inputs:roughness'')
      \<and> namespaced textureR \<and> namespaced previewRoughness
      \<and> \<not> qualifiedTerminal exampleRegistry (stage s1) textureR (typedView ''/mtl/tex'' ''outputs:r'')
            previewRoughness (typedView ''/mtl/preview'' ''inputs:roughness'')"
    unfolding s1
    by (simp add: defs namesOwnAttribute_def namespaced_def qualifiedTerminal_def)
  have ty: "runTimeId (sceneItem textureR) = usdRunTime"
    "dynamicUsdAttribute textureR = Some (typedView ''/mtl/tex'' ''outputs:r'')"
    "runTimeId (sceneItem previewRoughness) = usdRunTime"
    "dynamicUsdAttribute previewRoughness = Some (typedView ''/mtl/preview'' ''inputs:roughness'')"
    by (simp_all add: example_defs)
  from connection_round_trip [OF ty, of exampleRegistry exampleSession s1 s1 s2] del cre side
  have "\<not> isConnected exampleLibrary (stage s1)
            (SdfPath ''/mtl/tex'' ''outputs:r'') (SdfPath ''/mtl/preview'' ''inputs:roughness'')
        \<and> isConnected exampleLibrary (stage s2)
            (SdfPath ''/mtl/tex'' ''outputs:r'') (SdfPath ''/mtl/preview'' ''inputs:roughness'')"
    by (simp add: exampleLibrary_def typedView_def)
  with del cre show ?thesis
    by (simp add: s1_def [symmetric] s2_def [symmetric])
qed

text \<open>
  Claim C1 as it was stated fails in the material-terminal branch: the shader's
  definition declares the source type \<open>mdl\<close>, the call connects the output
  \<open>outputs:mdl:surface\<close> that it creates on the material and returns true, and the
  destination \<open>outputs:surface\<close> has no connection afterwards.
\<close>

theorem round_trip_fails_on_qualified_terminal:
  "fst (createConnection exampleLibrary (Some mdlSurface) (Some materialSurface) exampleSession)
     = True
   \<and> \<not> isConnected exampleLibrary
         (stage (snd (createConnection exampleLibrary (Some mdlSurface) (Some materialSurface)
                        exampleSession)))
         (SdfPath ''/mtl/mdl'' ''outputs:surface'') (SdfPath ''/mtl'' ''outputs:surface'')"
  by (simp add: example_defs handler_defs ref_defs)

text \<open>
  The proviso on the names is needed as well. A name outside the two namespaces is
  decoded as \<open>Invalid\<close> and takes the output branch: the call creates and connects the
  output \<open>outputs:info:id\<close> and returns true, and the attribute \<open>info:id\<close> given as the
  source is not among the destination's connections.
\<close>

lemma round_trip_fails_outside_namespaces:
  "fst (createConnection exampleLibrary (Some textureInfoId) (Some previewMetallic) exampleSession)
     = True
   \<and> ref_GetConnections
        (stage (snd (createConnection exampleLibrary (Some textureInfoId) (Some previewMetallic)
                       exampleSession)))
        (SdfPath ''/mtl/preview'' ''inputs:metallic'')
       = [SdfPath ''/mtl/tex'' ''outputs:info:id'']
   \<and> \<not> isConnected exampleLibrary
         (stage (snd (createConnection exampleLibrary (Some textureInfoId) (Some previewMetallic)
                        exampleSession)))
         (SdfPath ''/mtl/tex'' ''info:id'') (SdfPath ''/mtl/preview'' ''inputs:metallic'')"
  by (simp add: example_defs handler_defs ref_defs)

text \<open>
  Claim C3, as amended. For every library: when \<open>a\<close> and \<open>b\<close> are connected,
  \<open>createConnection a b\<close> returns false and changes neither the stage nor the
  diagnostics. On the reference library: a second \<open>createConnection a b\<close> right after
  one that returned true returns false and changes nothing, provided the sockets the
  first call connected are \<open>a\<close> and \<open>b\<close> themselves (the proviso of claim C1).
\<close>

theorem createConnection_when_connected:
  assumes "runTimeId (sceneItem a) = getUsdRunTimeId X" "dynamicUsdAttribute a = Some su"
    and "runTimeId (sceneItem b) = getUsdRunTimeId X" "dynamicUsdAttribute b = Some du"
  shows "(isConnected X (stage s) (usdAttribute su) (usdAttribute du)
            \<longrightarrow> createConnection X (Some a) (Some b) s = (False, s))
       \<and> (createConnection (referenceLibrary (getUsdRunTimeId X) registry) (Some a) (Some b) t
              = (True, t')
            \<and> namesOwnAttribute a su \<and> namesOwnAttribute b du \<and> namespaced a \<and> namespaced b
            \<and> \<not> qualifiedTerminal registry (stage t) a su b du
            \<longrightarrow> createConnection (referenceLibrary (getUsdRunTimeId X) registry) (Some a) (Some b) t'
                  = (False, t'))"
proof -
  let ?R = "referenceLibrary (getUsdRunTimeId X) registry"
  have rt: "getUsdRunTimeId ?R = getUsdRunTimeId X" by (simp add: referenceLibrary_def)
  have again: "createConnection ?R (Some a) (Some b) t' = (False, t')"
    if "isConnected ?R (stage t') (usdAttribute su) (usdAttribute du)"
    using that assms by (simp add: createConnection_typed rt)
  show ?thesis
    using ref_createConnection_roundtrip [OF assms, of registry t t'] again
    by (auto simp: createConnection_typed [OF assms])
qed

theorem createConnection_when_connected_witness:
  "isConnected exampleLibrary exampleStage
     (SdfPath ''/mtl/tex'' ''outputs:r'') (SdfPath ''/mtl/preview'' ''inputs:roughness'')
   \<and> createConnection exampleLibrary (Some textureR) (Some previewRoughness) exampleSession
       = (False, exampleSession)
   \<and> fst (createConnection exampleLibrary (Some textureR) (Some previewMetallic) exampleSession)
       = True
   \<and> createConnection exampleLibrary (Some textureR) (Some previewMetallic)
       (snd (createConnection exampleLibrary (Some textureR) (Some previewMetallic) exampleSession))
       = (False, snd (createConnection exampleLibrary (Some textureR) (Some previewMetallic)
                        exampleSession))"
proof -
  note defs = example_defs handler_defs ref_defs
  define s1 where
    "s1 = snd (createConnection exampleLibrary (Some textureR) (Some previewMetallic) exampleSession)"
  have lib: "referenceLibrary (getUsdRunTimeId exampleLibrary) exampleRegistry = exampleLibrary"
    by (simp add: exampleLibrary_def referenceLibrary_def)
  have tyR: "runTimeId (sceneItem textureR) = getUsdRunTimeId exampleLibrary"
    "dynamicUsdAttribute textureR = Some (typedView ''/mtl/tex'' ''outputs:r'')"
    "runTimeId (sceneItem previewRoughness) = getUsdRunTimeId exampleLibrary"
    "dynamicUsdAttribute previewRoughness = Some (typedView ''/mtl/preview'' ''inputs:roughness'')"
    and tyM: "runTimeId (sceneItem previewMetallic) = getUsdRunTimeId exampleLibrary"
    "dynamicUsdAttribute previewMetallic = Some (typedView ''/mtl/preview'' ''inputs:metallic'')"
    by (simp_all add: example_defs)
  have con: "isConnected exampleLibrary (stage exampleSession)
     (usdAttribute (typedView ''/mtl/tex'' ''outputs:r''))
     (usdAttribute (typedView ''/mtl/preview'' ''inputs:roughness''))"
    by (simp add: defs)
  have first: "createConnection exampleLibrary (Some textureR) (Some previewRoughness) exampleSession
       = (False, exampleSession)"
    using createConnection_when_connected [OF tyR, of exampleSession] con by simp
  have cre: "createConnection exampleLibrary (Some textureR) (Some previewMetallic) exampleSession
       = (True, s1)"
    unfolding s1_def by (simp add: defs)
  have side: "namesOwnAttribute textureR (typedView ''/mtl/tex'' ''outputs:r'')
      \<and> namesOwnAttribute previewMetallic (typedView ''/mtl/preview'' ''inputs:metallic'')
      \<and> namespaced textureR \<and> namespaced previewMetallic
      \<and> \<not> qualifiedTerminal exampleRegistry (stage exampleSession) textureR
            (typedView ''/mtl/tex'' ''outputs:r'')
            previewMetallic (typedView ''/mtl/preview'' ''inputs:metallic'')"
    by (simp add: defs namesOwnAttribute_def namespaced_def qualifiedTerminal_def)
  have second: "createConnection exampleLibrary (Some textureR) (Some previewMetallic) s1
       = (False, s1)"
    using createConnection_when_connected
            [OF tyR(1,2) tyM, of exampleSession exampleRegistry exampleSession s1] cre side
    by (simp add: lib)
  from con first cre second show ?thesis
    by (simp add: s1_def [symmetric] typedView_def exampleSession_def)
qed

text \<open>
  The second half of claim C3 as it was stated fails in the material-terminal branch:
  the first call returns true, \<open>a\<close> and \<open>b\<close> are not connected after it, and the second
  call runs the connect again and returns true.
\<close>

theorem second_create_succeeds_on_qualified_terminal:
  "fst (createConnection exampleLibrary (Some mdlSurface) (Some materialSurface) exampleSession)
     = True
   \<and> fst (createConnection exampleLibrary (Some mdlSurface) (Some materialSurface)
            (snd (createConnection exampleLibrary (Some mdlSurface) (Some materialSurface)
                    exampleSession)))
     = True"
  by (simp add: example_defs handler_defs ref_defs)




text \<open>
  Claim C9. \<open>createConnection\<close> is not atomic. On the example stage the call from the
  output of the unregistered shader to the material's surface returns false, and the
  source's output socket, absent before, exists afterwards; so it does after the call to
  an input of a missing prim, where the connect step is the one that fails. On the
  reference library, for every call past the guard: when the registry lookup fails, the
  stage left is the stage right after the creation of the source socket; when the call
  returns false otherwise, the stage left is the stage right after the creation of the
  destination socket. Nothing created on the way is undone, and no call removes an
  attribute that was on the stage before it.
\<close>

theorem createConnection_not_atomic:
  "fst (createConnection exampleLibrary (Some unknownOut) (Some materialSurface) exampleSession)
     = False
   \<and> attrs exampleStage (SdfPath ''/mtl/unknown'' ''outputs:out'') = None
   \<and> attrs (stage (snd (createConnection exampleLibrary (Some unknownOut) (Some materialSurface)
                          exampleSession)))
        (SdfPath ''/mtl/unknown'' ''outputs:out'')
       = Some \<lparr>typeName = [], connectionPaths = []\<rparr>
   \<and> fst (createConnection exampleLibrary (Some unknownOut) (Some orphanInput) exampleSession)
       = False
   \<and> attrs (stage (snd (createConnection exampleLibrary (Some unknownOut) (Some orphanInput)
                          exampleSession)))
        (SdfPath ''/mtl/unknown'' ''outputs:out'')
       = Some \<lparr>typeName = [], connectionPaths = []\<rparr>
   \<and> dom (attrs (stage s))
       \<subseteq> dom (attrs (stage (snd (createConnection (referenceLibrary rtid registry)
                                      srcAttr dstAttr s))))
   \<and> (runTimeId (sceneItem a) = rtid \<and> dynamicUsdAttribute a = Some su
      \<and> runTimeId (sceneItem b) = rtid \<and> dynamicUsdAttribute b = Some du
      \<and> \<not> isConnected (referenceLibrary rtid registry) (stage t) (usdAttribute su) (usdAttribute du)
      \<and> ref_GetBaseNameAndType (name a) = (srcBaseName, srcAttrType)
      \<and> ref_GetBaseNameAndType (name b) = (dstBaseName, dstAttrType)
      \<and> (if srcAttrType = Input then ref_CreateInput else ref_CreateOutput)
           (usdPrim su) srcBaseName (ref_GetTypeName (stage t) (usdAttribute su)) (stage t)
           = (srcSocket, d')
      \<and> (terminal \<longleftrightarrow>
           srcAttrType \<noteq> Input \<and> dstAttrType \<noteq> Input \<and> ref_IsMaterial d' (usdPrim du)
           \<and> (dstBaseName = surface \<or> dstBaseName = volume \<or> dstBaseName = displacement))
      \<longrightarrow>
        (terminal \<and> registry (ref_GetShaderId d' (usdPrim su)) = None
           \<longrightarrow> fst (createConnection (referenceLibrary rtid registry) (Some a) (Some b) t) = False
               \<and> stage (snd (createConnection (referenceLibrary rtid registry) (Some a) (Some b) t))
                   = d')
        \<and> ((terminal \<longrightarrow> registry (ref_GetShaderId d' (usdPrim su)) = Some srcShaderNodeDef)
           \<and> (if terminal then
                 ref_CreateTerminalOutput dstBaseName (usdPrim du)
                   (if sourceType srcShaderNodeDef = ''glslfx'' then universalRenderContext
                    else sourceType srcShaderNodeDef) d'
               else (if dstAttrType = Input then ref_CreateInput else ref_CreateOutput)
                      (usdPrim du) dstBaseName (ref_GetTypeName d' (usdAttribute du)) d')
               = (dstSocket, d'')
           \<and> fst (createConnection (referenceLibrary rtid registry) (Some a) (Some b) t) = False
           \<longrightarrow> stage (snd (createConnection (referenceLibrary rtid registry) (Some a) (Some b) t))
                 = d''))"
proof -
  let ?R = "referenceLibrary rtid registry"
  have ex: "fst (createConnection exampleLibrary (Some unknownOut) (Some materialSurface) exampleSession)
     = False
   \<and> attrs exampleStage (SdfPath ''/mtl/unknown'' ''outputs:out'') = None
   \<and> attrs (stage (snd (createConnection exampleLibrary (Some unknownOut) (Some materialSurface)
                          exampleSession)))
        (SdfPath ''/mtl/unknown'' ''outputs:out'')
       = Some \<lparr>typeName = [], connectionPaths = []\<rparr>"
    by (simp add: example_defs handler_defs ref_defs)
  have ex2: "fst (createConnection exampleLibrary (Some unknownOut) (Some orphanInput) exampleSession)
       = False
   \<and> attrs (stage (snd (createConnection exampleLibrary (Some unknownOut) (Some orphanInput)
                          exampleSession)))
        (SdfPath ''/mtl/unknown'' ''outputs:out'')
       = Some \<lparr>typeName = [], connectionPaths = []\<rparr>"
    by (simp add: example_defs handler_defs ref_defs)
  have mono: "dom (attrs (stage s))
       \<subseteq> dom (attrs (stage (snd (createConnection ?R srcAttr dstAttr s))))"
    by (rule ref_createConnection_dom)
  have X: "getUsdRunTimeId ?R = rtid" "GetBaseNameAndType ?R = ref_GetBaseNameAndType"
    "CreateInput ?R = ref_CreateInput" "CreateOutput ?R = ref_CreateOutput"
    "GetTypeName ?R = ref_GetTypeName" "IsMaterial ?R = ref_IsMaterial"
    "GetShaderId ?R = ref_GetShaderId" "GetShaderNodeByIdentifier ?R = registry"
    "ConnectToSource ?R = ref_ConnectToSource"
    "CreateSurfaceOutput ?R = ref_CreateTerminalOutput surface"
    "CreateVolumeOutput ?R = ref_CreateTerminalOutput volume"
    "CreateDisplacementOutput ?R = ref_CreateTerminalOutput displacement"
    by (simp_all add: referenceLibrary_def)
  have steps:
    "(terminal \<and> registry (ref_GetShaderId d' (usdPrim su)) = None
           \<longrightarrow> fst (createConnection ?R (Some a) (Some b) t) = False
               \<and> stage (snd (createConnection ?R (Some a) (Some b) t)) = d')
        \<and> ((terminal \<longrightarrow> registry (ref_GetShaderId d' (usdPrim su)) = Some srcShaderNodeDef)
           \<and> (if terminal then
                 ref_CreateTerminalOutput dstBaseName (usdPrim du)
                   (if sourceType srcShaderNodeDef = ''glslfx'' then universalRenderContext
                    else sourceType srcShaderNodeDef) d'
               else (if dstAttrType = Input then ref_CreateInput else ref_CreateOutput)
                      (usdPrim du) dstBaseName (ref_GetTypeName d' (usdAttribute du)) d')
               = (dstSocket, d'')
           \<and> fst (createConnection ?R (Some a) (Some b) t) = False
           \<longrightarrow> stage (snd (createConnection ?R (Some a) (Some b) t)) = d'')"
    if ty: "runTimeId (sceneItem a) = rtid" "dynamicUsdAttribute a = Some su"
        "runTimeId (sceneItem b) = rtid" "dynamicUsdAttribute b = Some du"
      and nc: "\<not> isConnected ?R (stage t) (usdAttribute su) (usdAttribute du)"
      and da: "ref_GetBaseNameAndType (name a) = (srcBaseName, srcAttrType)"
      and db: "ref_GetBaseNameAndType (name b) = (dstBaseName, dstAttrType)"
      and cs: "(if srcAttrType = Input then ref_CreateInput else ref_CreateOutput)
           (usdPrim su) srcBaseName (ref_GetTypeName (stage t) (usdAttribute su)) (stage t)
           = (srcSocket, d')"
      and tm: "terminal \<longleftrightarrow>
           srcAttrType \<noteq> Input \<and> dstAttrType \<noteq> Input \<and> ref_IsMaterial d' (usdPrim du)
           \<and> (dstBaseName = surface \<or> dstBaseName = volume \<or> dstBaseName = displacement)"
  proof -
    have cc: "createConnection ?R (Some a) (Some b) t = connectSockets ?R a su b du t"
      using ty nc by (simp add: createConnection_typed X)
    show ?thesis
    proof (intro conjI impI)
      assume h: "terminal \<and> registry (ref_GetShaderId d' (usdPrim su)) = None"
      have so: "srcAttrType \<noteq> Input" and dob: "dstAttrType \<noteq> Input"
        and mat: "ref_IsMaterial d' (usdPrim du)"
        and nm: "dstBaseName = surface \<or> dstBaseName = volume \<or> dstBaseName = displacement"
        using h tm by simp_all
      have u: "connectSockets ?R a su b du t =
           (False,
            t\<lparr>stage := d',
              diagnostics := diagnostics t @
                [''Could not find node definition '' @ apostrophe @ GetShaderId ?R d' (usdPrim su)
                 @ apostrophe @ '' for node '' @ apostrophe @ path (sceneItem a) @ apostrophe
                 @ ''.'']\<rparr>)"
      proof (rule connectSockets_unregistered
          [where srcAttrType = srcAttrType and dstAttrType = dstAttrType
             and srcBaseName = srcBaseName and dstBaseName = dstBaseName
             and srcOutput = srcSocket])
        show "GetBaseNameAndType ?R (name a) = (srcBaseName, srcAttrType)" by (simp add: X da)
        show "GetBaseNameAndType ?R (name b) = (dstBaseName, dstAttrType)" by (simp add: X db)
        show "CreateOutput ?R (usdPrim su) srcBaseName (GetTypeName ?R (stage t) (usdAttribute su))
                (stage t) = (srcSocket, d')"
          using cs so by (simp add: X)
        show "IsMaterial ?R d' (usdPrim du)" by (simp add: X mat)
        show "GetShaderNodeByIdentifier ?R (GetShaderId ?R d' (usdPrim su)) = None"
          using h by (simp add: X)
      qed (fact so dob nm)+
      show "fst (createConnection ?R (Some a) (Some b) t) = False"
        by (simp add: cc u)
      show "stage (snd (createConnection ?R (Some a) (Some b) t)) = d'"
        by (simp add: cc u)
    next
      assume h: "(terminal \<longrightarrow> registry (ref_GetShaderId d' (usdPrim su)) = Some srcShaderNodeDef)
           \<and> (if terminal then
                 ref_CreateTerminalOutput dstBaseName (usdPrim du)
                   (if sourceType srcShaderNodeDef = ''glslfx'' then universalRenderContext
                    else sourceType srcShaderNodeDef) d'
               else (if dstAttrType = Input then ref_CreateInput else ref_CreateOutput)
                      (usdPrim du) dstBaseName (ref_GetTypeName d' (usdAttribute du)) d')
               = (dstSocket, d'')
           \<and> fst (createConnection ?R (Some a) (Some b) t) = False"
      have cd: "(if terminal then
            (if dstBaseName = surface then CreateSurfaceOutput ?R
             else if dstBaseName = volume then CreateVolumeOutput ?R
             else CreateDisplacementOutput ?R)
              (usdPrim du)
              (if sourceType srcShaderNodeDef = ''glslfx'' then universalRenderContext
               else sourceType srcShaderNodeDef) d'
          else (if dstAttrType = Input then CreateInput ?R else CreateOutput ?R)
                 (usdPrim du) dstBaseName (GetTypeName ?R d' (usdAttribute du)) d')
           = (dstSocket, d'')"
      proof (cases "terminal")
        case True
        then have "dstBaseName = surface \<or> dstBaseName = volume \<or> dstBaseName = displacement"
          using tm by simp
        then have "(if dstBaseName = surface then CreateSurfaceOutput ?R
               else if dstBaseName = volume then CreateVolumeOutput ?R
               else CreateDisplacementOutput ?R) = ref_CreateTerminalOutput dstBaseName"
          by (auto simp: X)
        with h True show ?thesis by simp
      next
        case False
        with h show ?thesis by (cases "dstAttrType = Input") (simp_all add: X)
      qed
      have "connectSockets ?R a su b du t =
           (fst (ConnectToSource ?R dstSocket srcSocket d''),
            t\<lparr>stage := snd (ConnectToSource ?R dstSocket srcSocket d'')\<rparr>)"
      proof (rule connectSockets_result
          [where terminal = "terminal" and srcShaderNodeDef = srcShaderNodeDef
             and srcBaseName = srcBaseName and srcAttrType = srcAttrType
             and dstBaseName = dstBaseName and dstAttrType = dstAttrType])
        show "GetBaseNameAndType ?R (name a) = (srcBaseName, srcAttrType)" by (simp add: X da)
        show "GetBaseNameAndType ?R (name b) = (dstBaseName, dstAttrType)" by (simp add: X db)
        show "(if srcAttrType = Input then CreateInput ?R else CreateOutput ?R)
           (usdPrim su) srcBaseName (GetTypeName ?R (stage t) (usdAttribute su)) (stage t)
           = (srcSocket, d')"
          using cs by (cases "srcAttrType = Input") (simp_all add: X)
        show "terminal \<longleftrightarrow>
           srcAttrType \<noteq> Input \<and> dstAttrType \<noteq> Input \<and> IsMaterial ?R d' (usdPrim du)
           \<and> (dstBaseName = surface \<or> dstBaseName = volume \<or> dstBaseName = displacement)"
          using tm by (simp add: X)
        show "terminal \<longrightarrow>
           GetShaderNodeByIdentifier ?R (GetShaderId ?R d' (usdPrim su)) = Some srcShaderNodeDef"
          using h by (simp add: X)
      qed (fact cd)
      then have r: "createConnection ?R (Some a) (Some b) t =
           (fst (ref_ConnectToSource dstSocket srcSocket d''),
            t\<lparr>stage := snd (ref_ConnectToSource dstSocket srcSocket d'')\<rparr>)"
        by (simp add: cc X)
      with h have "fst (ref_ConnectToSource dstSocket srcSocket d'') = False" by simp
      from ref_ConnectToSource_False [OF this] r
      show "stage (snd (createConnection ?R (Some a) (Some b) t)) = d''" by simp
    qed
  qed
  from ex ex2 mono steps show ?thesis by blast
qed

theorem createConnection_not_atomic_witness:
  "stage (snd (createConnection exampleLibrary (Some unknownOut) (Some materialSurface)
                 exampleSession))
     = snd (ref_CreateOutput ''/mtl/unknown'' ''out'' [] exampleStage)
   \<and> fst (createConnection exampleLibrary (Some unknownOut) (Some orphanInput) exampleSession)
       = False
   \<and> stage (snd (createConnection exampleLibrary (Some unknownOut) (Some orphanInput)
                   exampleSession))
       = snd (ref_CreateInput ''/gone'' ''x'' []
                (snd (ref_CreateOutput ''/mtl/unknown'' ''out'' [] exampleStage)))
   \<and> attrs (snd (ref_CreateInput ''/gone'' ''x'' []
                (snd (ref_CreateOutput ''/mtl/unknown'' ''out'' [] exampleStage))))
        (SdfPath ''/mtl/unknown'' ''outputs:out'')
       \<noteq> attrs exampleStage (SdfPath ''/mtl/unknown'' ''outputs:out'')"
proof -
  note defs = example_defs handler_defs ref_defs
  have lib: "referenceLibrary usdRunTime exampleRegistry = exampleLibrary"
    by (simp add: exampleLibrary_def)
  note miss = createConnection_not_atomic
      [where rtid = usdRunTime and registry = exampleRegistry
         and a = unknownOut and b = materialSurface
         and su = "typedView ''/mtl/unknown'' ''outputs:out''"
         and du = "typedView ''/mtl'' ''outputs:surface''"
         and t = exampleSession
         and srcBaseName = "''out''" and srcAttrType = Output
         and dstBaseName = "''surface''" and dstAttrType = Output
         and srcSocket = "ShadeOutput (SdfPath ''/mtl/unknown'' ''outputs:out'')"
         and d' = "snd (ref_CreateOutput ''/mtl/unknown'' ''out'' [] exampleStage)"
         and terminal = True]
  note fail = createConnection_not_atomic
      [where rtid = usdRunTime and registry = exampleRegistry
         and a = unknownOut and b = orphanInput
         and su = "typedView ''/mtl/unknown'' ''outputs:out''"
         and du = "typedView ''/gone'' ''inputs:x''"
         and t = exampleSession
         and srcBaseName = "''out''" and srcAttrType = Output
         and dstBaseName = "''x''" and dstAttrType = Input
         and srcSocket = "ShadeOutput (SdfPath ''/mtl/unknown'' ''outputs:out'')"
         and d' = "snd (ref_CreateOutput ''/mtl/unknown'' ''out'' [] exampleStage)"
         and terminal = False
         and dstSocket = "ShadeInput (SdfPath ''/gone'' ''inputs:x'')"
         and d'' = "snd (ref_CreateInput ''/gone'' ''x'' []
                      (snd (ref_CreateOutput ''/mtl/unknown'' ''out'' [] exampleStage)))"]
  have f: "fst (createConnection exampleLibrary (Some unknownOut) (Some orphanInput) exampleSession)
       = False"
    by (simp add: defs)
  have m: "stage (snd (createConnection exampleLibrary (Some unknownOut) (Some materialSurface)
                 exampleSession))
     = snd (ref_CreateOutput ''/mtl/unknown'' ''out'' [] exampleStage)"
    using miss unfolding lib by (simp add: defs)
  have c: "stage (snd (createConnection exampleLibrary (Some unknownOut) (Some orphanInput)
                   exampleSession))
       = snd (ref_CreateInput ''/gone'' ''x'' []
                (snd (ref_CreateOutput ''/mtl/unknown'' ''out'' [] exampleStage)))"
    using fail f unfolding lib by (simp add: defs)
  have d: "attrs (snd (ref_CreateInput ''/gone'' ''x'' []
                (snd (ref_CreateOutput ''/mtl/unknown'' ''out'' [] exampleStage))))
        (SdfPath ''/mtl/unknown'' ''outputs:out'')
       \<noteq> attrs exampleStage (SdfPath ''/mtl/unknown'' ''outputs:out'')"
    by (simp add: defs)
  from m f c d show ?thesis by simp
qed

end
